theory Spec2Isabelle
  imports Main
begin

section \<open>Errors raised by the masking package\<close>

text \<open>
  The exception classes of \<^verbatim>\<open>bankaccount.py\<close> and \<^verbatim>\<open>pin.py\<close>, together with the
  two built-in exceptions the modelled code can raise: \<^verbatim>\<open>ValueError\<close> (from \<^verbatim>\<open>int(...)\<close>
  and \<^verbatim>\<open>list.index\<close>) and \<^verbatim>\<open>UnboundLocalError\<close> (a local variable read before it was
  assigned).
\<close>

datatype error =
    IBANInvalidLength
  | IBANInvalidCountry
  | IBANInvalidBankCode
  | IBANInvalidCheckDigit
  | BBANInvalidLength
  | BBANInvalidBankCode
  | BBANInvalidBankBranchCheckDigit
  | BBANInvalidAccountCheckDigit
  | InvalidPinError
  | ValueError
  | UnboundLocalError

section \<open>The Python built-ins the code relies on\<close>

text \<open>
  Strings are Python 2 byte strings, so a character is one \<^typ>\<open>char\<close>. The character
  classes are those of the C locale.
\<close>

definition isdigit :: "char \<Rightarrow> bool" where
  "isdigit c = (48 \<le> (of_char c :: nat) \<and> (of_char c :: nat) \<le> 57)"

definition isspace :: "char \<Rightarrow> bool" where
  "isspace c = ((of_char c :: nat) \<in> set [9, 10, 11, 12, 13, 32])"

definition isalpha :: "char \<Rightarrow> bool" where
  "isalpha c =
     ((65 \<le> (of_char c :: nat) \<and> (of_char c :: nat) \<le> 90) \<or>
      (97 \<le> (of_char c :: nat) \<and> (of_char c :: nat) \<le> 122))"

definition upper_char :: "char \<Rightarrow> char" where
  "upper_char c =
     (if 97 \<le> (of_char c :: nat) \<and> (of_char c :: nat) \<le> 122
      then char_of ((of_char c :: nat) - 32) else c)"

text \<open>\<^verbatim>\<open>s.upper()\<close>\<close>

definition upper :: "string \<Rightarrow> string" where
  "upper s = map upper_char s"

text \<open>\<^verbatim>\<open>str(n)\<close> for an integer: the decimal digits, most significant first.\<close>

definition digit_char :: "nat \<Rightarrow> char" where
  "digit_char d = char_of (48 + d)"

fun str_nat :: "nat \<Rightarrow> string" where
  "str_nat n =
     (if n < 10 then [digit_char n] else str_nat (n div 10) @ [digit_char (n mod 10)])"

declare str_nat.simps [simp del]

definition str_of_int :: "int \<Rightarrow> string" where
  "str_of_int i = (if i < 0 then CHR ''-'' # str_nat (nat (- i)) else str_nat (nat i))"

text \<open>
  \<^verbatim>\<open>s.zfill(width)\<close>: zeros are inserted on the left, after a leading sign if there is
  one; a string that is already wide enough is returned as it is.
\<close>

definition zfill :: "nat \<Rightarrow> string \<Rightarrow> string" where
  "zfill width s =
     (case s of
        [] \<Rightarrow> replicate width (CHR ''0'')
      | c # r \<Rightarrow>
          if c = CHR ''+'' \<or> c = CHR ''-''
          then c # replicate (width - length s) (CHR ''0'') @ r
          else replicate (width - length s) (CHR ''0'') @ s)"

text \<open>
  \<^verbatim>\<open>int(s)\<close> for a string: surrounding whitespace is ignored, one sign is allowed, and
  what is left must be a non-empty run of decimal digits; anything else raises
  \<^verbatim>\<open>ValueError\<close>. The result is an unbounded integer.
\<close>

definition strip :: "string \<Rightarrow> string" where
  "strip s = rev (dropWhile isspace (rev (dropWhile isspace s)))"

definition digits_value :: "string \<Rightarrow> nat" where
  "digits_value ds = foldl (\<lambda>a c. 10 * a + ((of_char c :: nat) - 48)) 0 ds"

definition int_of_str :: "string \<Rightarrow> error + int" where
  "int_of_str s =
     (let t = strip s;
          neg = (t \<noteq> [] \<and> hd t = CHR ''-'');
          ds = (if t \<noteq> [] \<and> (hd t = CHR ''-'' \<or> hd t = CHR ''+'') then tl t else t)
      in if ds \<noteq> [] \<and> list_all isdigit ds
         then Inr (if neg then - int (digits_value ds) else int (digits_value ds))
         else Inl ValueError)"

text \<open>\<^verbatim>\<open>xs.index(x)\<close>: the first position of \<open>x\<close>, or \<^verbatim>\<open>ValueError\<close>.\<close>

fun list_index :: "'a list \<Rightarrow> 'a \<Rightarrow> error + nat" where
  "list_index [] x = Inl ValueError"
| "list_index (y # ys) x =
     (if y = x then Inr 0
      else (case list_index ys x of Inl e \<Rightarrow> Inl e | Inr i \<Rightarrow> Inr (Suc i)))"

text \<open>\<^verbatim>\<open>s.replace(old, new)\<close> where \<open>old\<close> is a single character: every occurrence is replaced.\<close>

definition replace :: "char \<Rightarrow> string \<Rightarrow> string \<Rightarrow> string" where
  "replace old new s = concat (map (\<lambda>c. if c = old then new else [c]) s)"

section \<open>National identity numbers (\<^verbatim>\<open>pin.py\<close>)\<close>

definition letters :: "string list" where
  "letters = [''T'', ''R'', ''W'', ''A'', ''G'', ''M'', ''Y'', ''F'', ''P'', ''D'', ''X'', ''B'',
              ''N'', ''J'', ''Z'', ''S'', ''Q'', ''V'', ''H'', ''L'', ''C'', ''K'', ''E'']"

definition foreign :: "string list" where
  "foreign = [''X'', ''Y'', ''Z'']"

text \<open>
  \<^verbatim>\<open>DNI.validate(pin)\<close>. After the length check \<^verbatim>\<open>pin[8]\<close> and \<^verbatim>\<open>pin[0]\<close> are in range, and
  \<^verbatim>\<open>int(pin) % 23\<close> lies in \<open>0..22\<close>, so \<^verbatim>\<open>letters[...]\<close> is in range too (Python's
  \<^verbatim>\<open>%\<close> with a positive modulus is never negative, as \<open>mod\<close> on \<^typ>\<open>int\<close>).
\<close>

definition DNI_validate :: "string \<Rightarrow> error + bool" where
  "DNI_validate pin0 =
     (if length pin0 \<noteq> 9 then Inl InvalidPinError
      else
        let check_digit = [pin0 ! 8];
            pin = take 8 pin0
        in case (if [pin ! 0] \<in> set foreign
                 then (case list_index foreign [pin ! 0] of
                         Inl e \<Rightarrow> Inl e
                       | Inr i \<Rightarrow> Inr (replace (pin ! 0) (str_of_int (int i)) pin))
                 else Inr pin) of
             Inl e \<Rightarrow> Inl e
           | Inr pin' \<Rightarrow>
               (case int_of_str pin' of
                  Inl e \<Rightarrow> Inl e
                | Inr n \<Rightarrow> Inr (check_digit = letters ! nat (n mod 23))))"

text \<open>
  \<^verbatim>\<open>DNI.national\<close>; \<open>r\<close> is the value of \<^verbatim>\<open>random.randint(0, 9999999)\<close>, so
  \<open>0 \<le> r \<le> 9999999\<close>.
\<close>

definition DNI_national :: "int \<Rightarrow> error + string" where
  "DNI_national r =
     (let dni = zfill 8 (str_of_int r)
      in case int_of_str dni of
           Inl e \<Rightarrow> Inl e
         | Inr n \<Rightarrow> Inr (dni @ letters ! nat (n mod 23)))"

text \<open>
  \<^verbatim>\<open>DNI.foreign\<close>; \<open>choice\<close> is the value of \<^verbatim>\<open>random.choice(foreign)\<close>, an element of
  \<^const>\<open>foreign\<close>, and \<open>r\<close> the value of \<^verbatim>\<open>random.randint(0, 9999999)\<close>.
\<close>

definition DNI_foreign :: "string \<Rightarrow> int \<Rightarrow> error + string" where
  "DNI_foreign choice r =
     (case list_index foreign choice of
        Inl e \<Rightarrow> Inl e
      | Inr letter \<Rightarrow>
          (let dni = zfill 7 (str_of_int r)
           in (case int_of_str (str_of_int (int letter) @ dni) of
                 Inl e \<Rightarrow> Inl e
               | Inr numeric_nie \<Rightarrow>
                   Inr (foreign ! letter @ dni @ letters ! nat (numeric_nie mod 23)))))"

text \<open>
  The property \<^verbatim>\<open>DNI.value\<close>: \<^verbatim>\<open>random.choice(pin_type)\<close> picks one of the two generators;
  the code is returned only if it validates, otherwise the property falls through and
  returns \<^verbatim>\<open>None\<close>.
\<close>

datatype pin_type = National | Foreign

definition DNI_value :: "pin_type \<Rightarrow> string \<Rightarrow> int \<Rightarrow> error + string option" where
  "DNI_value picked choice r =
     (case (case picked of National \<Rightarrow> DNI_national r | Foreign \<Rightarrow> DNI_foreign choice r) of
        Inl e \<Rightarrow> Inl e
      | Inr pin \<Rightarrow>
          (case DNI_validate pin of
             Inl e \<Rightarrow> Inl e
           | Inr ok \<Rightarrow> Inr (if ok then Some pin else None)))"

section \<open>Bank accounts (\<^verbatim>\<open>bankaccount.py\<close>)\<close>

text \<open>
  The dictionary \<^verbatim>\<open>BANKS\<close>: bank code, then name and BIC. The code only ever asks
  whether a bank code is a key of it (\<^verbatim>\<open>bank in BANKS\<close>).
\<close>

definition BANKS :: "(string \<times> string \<times> string) list" where
  "BANKS =
    [
     (''0136'', ''ARESBANK'', ''AREBESMMXXX''),
     (''0238'', ''BANCO-PASTOR'', ''POPUESMMXXX''),
     (''0130'', ''BANCO-CAIXA-GRAL'', ''CGDIESMMXXX''),
     (''0038'', ''SANTANDER-BANCO-EMISIONES'', ''BSCHESMMXXX''),
     (''0132'', ''BANCO-PROMOCION-NEGOCIOS'', ''PRNEESM1XXX''),
     (''0133'', ''NUEVO-MICROBANK'', ''MIKBESB1XXX''),
     (''0233'', ''POPULAR-BANCA-PRIVADA'', ''POPIESMMXXX''),
     (''0232'', ''BANCO-INVERSIS'', ''INVLESMMXXX''),
     (''0231'', ''DEXIA-SABADELL'', ''DSBLESMMXXX''),
     (''0036'', ''SANTANDER-IVESTMENT'', ''SABNESMMXXX''),
     (''0138'', ''BANKOA'', ''BKOAES22XXX''),
     (''0239'', ''EVO-BANK'', ''EVOBESMMXXX''),
     (''0235'', ''BANCO-PICHINCHA'', ''PIESESM1XXX''),
     (''0234'', ''BANCO-CAMINOS'', ''CCOCESMMXXX''),
     (''2095'', ''KUTXABANK'', ''BASKES2BXXX''),
     (''2096'', ''CAJA-ESPANA-NVERSIONES'', ''CSPAES2LXXX''),
     (''3095'', ''CAJA-RURAL-SANROQUE'', ''BCOEESMM095''),
     (''2013'', ''CATALUNYA-BANK'', ''CESCESBBXXX''),
     (''3045'', ''CAIXA-RURAL-ALTEA'', ''BCOEESMM045''),
     (''0131'', ''BANCO-ESPIRITO-SANTO'', ''BESMESMMXXX''),
     (''1546'', ''CNH-CAPITAL'', ''CNCUFRP1XXX''),
     (''1544'', ''ANDBANK'', ''BACAESMMXXX''),
     (''1545'', ''CREDIT-ACRICOLE-LUXEMBURGO'', ''AGRIESMMXXX''),
     (''1535'', ''AKF-BANK'', ''AKFBDE33XXX''),
     (''3121'', ''CAJA-RURAL-CHESTE'', ''BCOEESMM121''),
     (''3127'', ''CAJA-RURAL-CASASIBANEZ'', ''BCOEESMM127''),
     (''1549'', ''MAINFIRST'', ''MAIFDFFXXX''),
     (''0144'', ''BNP-PARIBAS-SECURITES'', ''PARBESMXXXX''),
     (''2401'', ''CAJA-PENSIONES-BARCELONA'', ''CAIXESBBXXX''),
     (''1465'', ''ING-DIRECT'', ''INGDESMMXXX''),
     (''1467'', ''HYPOTHEKENBANK-FRNAKFURT'', ''EHYPESMXXXX''),
     (''3190'', ''CAJA-RURAL-ALBACETE'', ''BCOEESMM190''),
     (''1460'', ''CREDIT-SUISSE-AG'', ''CRESESMMXXX''),
     (''1463'', ''BANQUE-PSA-FINANCE'', ''PSABESM1XXX''),
     (''0049'', ''BANCO-SANTANDER'', ''BSCHESMMXXX''),
     (''0125'', ''BANCOFAR'', ''BAOFESM1XXX''),
     (''0122'', ''CITIBANK'', ''CITIES2XXXX''),
     (''0121'', ''BANCO-OCCIDENTAL'', ''OCBAESM1XXX''),
     (''0031'', ''BANCO-ETCHEVARRIA'', ''ETCHES2GXXX''),
     (''3183'', ''CAJA-ARQUITECTOS-COOP'', ''CASDESBBXXX''),
     (''0046'', ''BANCO-GALLEGO'', ''GALEES2GXXX''),
     (''0128'', ''BANKINTER'', ''BKBKESMMXXX''),
     (''1490'', ''SELF-TRADE-BANK'', ''SELFESMMXXX''),
     (''1491'', ''TRIODOS-BANK'', ''TRIOESMMXXX''),
     (''1492'', ''BNP-PARIBAS-LEASE'', ''ESSIESMMXXX''),
     (''1493'', ''CAIXA-BANCO-INVESTIMENTO'', ''CXBIPTPLXXX''),
     (''1494'', ''INTESA-SANPAOLO'', ''BCITESMMXXX''),
     (''3130'', ''CAJA-RURAL-ALMASSORA'', ''BCOEESMM130''),
     (''1496'', ''GENEFIM'', ''GENFFRP1XXX''),
     (''1499'', ''CLAAS-FINANCIAL'', ''CLAAFRP1XXX''),
     (''3138'', ''CAJA-RURAL-BETXI'', ''BCOEESMM138''),
     (''3035'', ''CAJA-LABORAL-POPULAR'', ''CLPEES2MXXX''),
     (''2415'', ''CAJA-EXTREMADURA'', ''CECAESMM099''),
     (''2105'', ''BANCO-CASTILLA-MANCHA'', ''CECAESMM105''),
     (''2416'', ''CAJA-CANTABRIA'', ''CECAESMM066''),
     (''2038'', ''BANKIA'', ''CAHMESMMXXX''),
     (''0113'', ''BANCO-INDUSTRIAL-BILBAO'', ''INBBESM1XXX''),
     (''0059'', ''BANCO-MADRID'', ''MADRESMMXXX''),
     (''0058'', ''BNP-PARIBAS'', ''BNPAESMMXXX''),
     (''0115'', ''BANCO-CASTILLA-LAMANCHA'', ''CECAESMM115''),
     (''0057'', ''BANCO-DEPOSITARIO-BBVA'', ''BVADESMMXXX''),
     (''3140'', ''CAJA-RURAL-GUISSONA'', ''BCOEESMM140''),
     (''1482'', ''JOHN-DEERE-BANK'', ''CHASESM3XXX''),
     (''1481'', ''BANCO-MAIS'', ''ESMMES64XXX''),
     (''1480'', ''VOLKSWAGEN-BANK'', ''VOWAES21XXX''),
     (''1487'', ''TOYOTA-KREDITBANK'', ''TKGTFR21XXX''),
     (''1485'', ''BANK-OF-AMERICA'', ''BOFAES2XXXX''),
     (''1488'', ''PICTET-CIE'', ''PICTESMMXXX''),
     (''3134'', ''CAJA-RURAL-SRAESPERANZA'', ''BCOEESMM134''),
     (''3165'', ''CAJA-RURAL-SANISIDROVILAFAMES'', ''BCOEESMM165''),
     (''3029'', ''CAJA-CREDITO-PETREL'', ''BCOEESMM029''),
     (''3162'', ''CAJA-RURAL-BENICARLO'', ''BCOEESMM162''),
     (''3025'', ''CAIXA-CREDIT-ENGINYERS'', ''CDENESBBXXX''),
     (''3023'', ''CAJA-RURAL-GRANADA'', ''BCOEESMM023''),
     (''3020'', ''CAJA-RURAL-UTRERA'', ''BCOEESMM020''),
     (''1524'', ''UBI-BANCA'', ''UBIBESMMXXX''),
     (''1525'', ''BANQUE-CHAABI-MAROC'', ''BCDMESMMXXX''),
     (''2108'', ''BANCO-CAJAESPANA-SALAMANCASORIA'', ''CSPAES2L108''),
     (''3160'', ''CAIXA-RURAL-SANTJOSEPCOOP'', ''BCOEESMM160''),
     (''0200'', ''PRIVAT-BANK-DEGROOF'', ''PRVBESB1XXX''),
     (''1523'', ''MERCEDES-BENZ-BANK'', ''DEUTESBBXXX''),
     (''0444'', ''SISTEMA-4B'', ''''),
     (''1528'', ''JCB-FINANCE'', ''ES1528''),
     (''1530'', ''SOFINLOC'', ''FIOFESM1XXX''),
     (''0108'', ''SOCIETE-GENERALE'', ''SOGEESMMXXX''),
     (''3152'', ''CAJA-RURAL-VILLAR'', ''BCOEESMM152''),
     (''3150'', ''CAJA-RURAL-ALBALCOOP'', ''BCOEESMM150''),
     (''3157'', ''CAJA-RURAL-JUNQUERA'', ''BCOEESMM157''),
     (''9000'', ''BANCO-DE-ESPANA'', ''ESPBESMMXXX''),
     (''3159'', ''CAIXA-POPULAR-SDADCOOP'', ''BCOEESMM159''),
     (''0237'', ''CAJASUR-BANCO'', ''CSURES2CXXX''),
     (''3018'', ''CAJA-RURAL-SANAGUSTIN'', ''BCOEESMM018''),
     (''2045'', ''CAIXA-DESTALVIS-ONTINENT'', ''CECAESMM045''),
     (''2056'', ''CAIXA-DESTALVIS-POLLENSA'', ''CECAESMM056''),
     (''3016'', ''CAJA-RURAL-SALAMANCA'', ''BCOEESMM016''),
     (''3017'', ''CAJA-RURAL-SORIA'', ''BCOEESMM017''),
     (''2048'', ''LEBERBANK'', ''CECAESMM048''),
     (''1510'', ''SAXO-BANK'', ''SAXODKKKXXX''),
     (''0211'', ''EBN-BANCO-NEGOCIOS'', ''PROAESMMXXX''),
     (''1536'', ''OREY-FINANCIAL'', ''OVSCPTP1XXX''),
     (''0198'', ''BANCO-COOPERATIVO-ESPANOL'', ''BCOEESMMXXX''),
     (''3096'', ''CAIXA-RURAL-LALCUDIA'', ''BCOEESMM096''),
     (''1532'', ''BNP-PARIBAS-FACTOR'', ''BNPAESMSXXX''),
     (''1531'', ''CREDIT-SUISSE'', ''CSROESM1XXX''),
     (''0216'', ''TARGOBANK'', ''POHIESMMXXX''),
     (''0219'', ''BANQUE-MAROCAINE-COMMERCE'', ''BMCEESMMXXX''),
     (''0218'', ''FCE-BANK-PLC'', ''FCEFESM1XXX''),
     (''0190'', ''BANCO-BPI'', ''BBPIESMMXXX''),
     (''0236'', ''SABADELL-SOLBANK'', ''LOYIESMMXXX''),
     (''1000'', ''ICO'', ''ICROESMMXXX''),
     (''3115'', ''CAJA-RURAL-MADRESOL'', ''BCOEESMM115''),
     (''3123'', ''CAIXA-RURAL-TURIS'', ''BCOEESMM123''),
     (''1522'', ''EFG-BANK'', ''EFGBESMMXXX''),
     (''3005'', ''CAJA-RURAL-CENTRAL'', ''BCOEESMM005''),
     (''3007'', ''CAJA-RURAL-GIJON'', ''BCOEESMM007''),
     (''3001'', ''CAJA-RURAL-ALMENDRALEJO'', ''BCOEESMM001''),
     (''3166'', ''CAIXA-RURAL-LESCOVESVINROMAS'', ''BCOEESMM166''),
     (''2000'', ''CECABANK'', ''CECAESMMXXX''),
     (''3009'', ''CAJA-RURAL-EXTREMADURA'', ''BCOEESMM009''),
     (''3008'', ''CAJA-RURAL-NAVARRA'', ''BCOEESMM008''),
     (''3113'', ''CAJA-RURAL-SANJOSEALCORA'', ''BCOEESMM113''),
     (''2414'', ''CAJA-ASTURIAS'', ''CECAESMMO48''),
     (''0184'', ''BANCO-EUROPEO-FINANZAS'', ''BEDFESM1XXX''),
     (''3144'', ''CAJA-RURAL-VILLAMALEA'', ''BCOEESMM144''),
     (''0186'', ''BANDO-MEDIOLANUM'', ''BFIVESBBXXX''),
     (''0182'', ''BBVA'', ''BBVAESMMXXX''),
     (''0188'', ''BANCO-ALCALA'', ''ALCLESMMXXX''),
     (''1502'', ''IKB-DEUTSCHE-INDUSTRIEBANK'', ''IKBDESM1XXX''),
     (''1500'', ''NATIXIS-LEASE'', ''NALEFRP1XXX''),
     (''0065'', ''BLARCLAYS-BANK'', ''BARCESMMXXX''),
     (''3089'', ''CAJA-RURAL-BAENA'', ''BCOEESMM089''),
     (''1504'', ''HONDA-BANK'', ''HONDDEF1XXX''),
     (''0061'', ''BANCA-MARCH'', ''BMARES2MXXX''),
     (''3085'', ''CAJA-RURAL-ZAMORA'', ''BCOEESMM085''),
     (''1508'', ''RCI-BANQUE'', ''RCIDDE31XXX''),
     (''1509'', ''BANCO-PRIMUS'', ''PRUUPTP1XXX''),
     (''3081'', ''CAJA-RURAL-CASTILLALAMANCHA'', ''BCOEESMM081''),
     (''3080'', ''CAJA-RURAL-TERUEL'', ''BCOEESMM080''),
     (''0488'', ''BANCO-FINANCIERO'', ''BFASESMMXXX''),
     (''2429'', ''CAJA-BADAJOZ'', ''CECAESMM429''),
     (''0169'', ''BANCO-NACION-ARGENTINA'', ''NACNESMMXXX''),
     (''0168'', ''ING-BELGIUM'', ''BBRUESMXXXX''),
     (''0003'', ''BANCO-DEPOSITOS'', ''BDEPESM1XXX''),
     (''2420'', ''IBERCAJA'', ''CAZRES2ZXXX''),
     (''0162'', ''HSBC-BANK'', ''MIDLESMMXXX''),
     (''0161'', ''DEUTSCHE-BANK-AMERICAS'', ''BKTRESM1XXX''),
     (''0160'', ''BANK-OF-TOKYO'', ''BOTKESMXXXX''),
     (''0167'', ''BNP-PARIBAS-FORTIS'', ''GEBAESMMXXX''),
     (''2426'', ''CAJA-RONDA'', ''UCJAES2MXXX''),
     (''0487'', ''BANCO-MARE-NOSTRUM'', ''GBMNESMMXXX''),
     (''3070'', ''CAIXA-RURAL-GALEGA'', ''BCOEESMM070''),
     (''0149'', ''BNP-SUCURSLA-ESPANA'', ''BNPAESMSXXX''),
     (''3076'', ''CAJA-RURAL-CAJASIETE'', ''BCOEESMM076''),
     (''3174'', ''CAIXA-RURAL-VINAROS'', ''BCOEESMM174''),
     (''3179'', ''CAJA-RURAL-ALGINET'', ''BCOEESMM179''),
     (''0073'', ''OPEN-BANK'', ''OPENESMMXXX''),
     (''1457'', ''DELAGE-LANDEN-INTB'', ''LLISESM1XXX''),
     (''0075'', ''BANCO-POPULAR'', ''POPUESMMXXX''),
     (''1451'', ''CAISSE-REGIONALE-SUDMEDITERRANEE'', ''CRCGESB1XXX''),
     (''3116'', ''CAJA-RURAL-MOTACUERVO'', ''BCOEESMM116''),
     (''2103'', ''UNICAJA-BANCO'', ''UCJAES2MXXX''),
     (''0078'', ''BANCO-PUEYO'', ''BAPUES22XXX''),
     (''2100'', ''CAIXABANK'', ''CAIXESBBXXX''),
     (''1459'', ''COPERATIVE-RAIFFEISEN'', ''PRABESMMXXX''),
     (''1513'', ''CAIXA-GERAL-DEPOSITOS'', ''CGDIES21XXX''),
     (''2104'', ''CAJA-SALAMANCA-SORIA'', ''CSSOES2SXXX''),
     (''2428'', ''CAJA-CIRCULO-BUROS'', ''CECAESMM428''),
     (''3146'', ''CAJA-CREDITO-COOPERATIVO'', ''CCCVESM1XXX''),
     (''0011'', ''ALLFUNDS-BANK'', ''ALLFESMMXXX''),
     (''1475'', ''CORTAL-CONSORS'', ''CCSEESM1XXX''),
     (''2433'', ''CECA'', ''CECAESMMXXX''),
     (''2432'', ''CAJA-VITORIA-ALAVA'', ''CECAESMM097''),
     (''2431'', ''CAJA-GUIPUZOCA'', ''CGGKES22XXX''),
     (''2430'', ''BILBAO-BIZKAIA-KUTXA'', ''BASKES2BXXX''),
     (''0019'', ''DEUTSCHE-BANK'', ''DEUTESBBXXX''),
     (''3063'', ''CAJA-RURAL-CORDOBA'', ''BCOEESMM063''),
     (''3060'', ''CAJA-RURAL-FUENTESEGOVIA'', ''BCOEESMM060''),
     (''3067'', ''CAJA-RURAL-JAEN'', ''BCOEESMM067''),
     (''3110'', ''CAJA-RURAL-CATOLICOAGRARIA'', ''BCOESSMM110''),
     (''1472'', ''CREDIT-AGRICOLE-FACTORING'', ''UCSSESM1XXX''),
     (''3104'', ''CAJA-RURAL-CANETETORRES'', ''BCOEESMM104''),
     (''3105'', ''CAIXA-RURAL-CALLOSA'', ''BCOEESMM105''),
     (''1470'', ''BANCO-PORTUGUES-INVESTIMENTO'', ''BPIPESM1XXX''),
     (''3102'', ''CAIXA-SANTFERRER-DUIXO'', ''BCOEESMM102''),
     (''1538'', ''INDUSTRIAL-COMMERCIAL-CHINA'', ''ICBKESMMXXX''),
     (''3186'', ''CAIXA-RURAL-ALBALAT'', ''BCOEESMM186''),
     (''3187'', ''CAJA-RURAL-DELSUR'', ''BCOEESMM187''),
     (''1505'', ''EUROPE-ARAB-BANK'', ''ARABESMMXXX''),
     (''2421'', ''CAJA-GRANADA'', ''CECAESMM031''),
     (''0081'', ''BANCO-SABADELL'', ''BSABESBBXXX''),
     (''0083'', ''RENTA4'', ''RENBESMMXXX''),
     (''0229'', ''BANCO-POPULAR-ESA'', ''POPLESMMXXX''),
     (''3191'', ''CAJA-RURAL-ARAGON'', ''BCOEESMM191''),
     (''0220'', ''BANCO-FINANTIA-CAPITAL'', ''FIOFESM1XXX''),
     (''2424'', ''CAJA-BALEARES'', ''CECAESMM051''),
     (''0223'', ''GENERAL-ELECTRIC-BANK'', ''GEECESB1XXX''),
     (''0224'', ''SANTANDER-CONSUMER'', ''SCFBESMMXXX''),
     (''0225'', ''BANCO-CETELEM'', ''FIEIESM1XXX''),
     (''0226'', ''UBS-BANK'', ''UBSWESMMXXX''),
     (''0227'', ''UNOE-BANK'', ''UNOEESM1XXX''),
     (''3058'', ''CAJAS-RURALES-UNIDAS CAJAMAR'', ''CCRIES2AXXX''),
     (''3059'', ''CAJA-RURAL-ASTURIAS'', ''BCOEESMM059''),
     (''1501'', ''DEUTSCHE-PFANDBRIEFBANK'', ''DPBBESM1XXX''),
     (''2427'', ''CAJA-INMACULADA'', ''CECAESMM427''),
     (''2422'', ''CAJA-MURCIA'', ''CECAESMM043''),
     (''3098'', ''CAJA-RURAL-NTRASE'' @ [CHR 0x5C] @ ''u00d1ORAROSARIO'', ''BCOEESMM098''),
     (''3135'', ''CAJA-RURAL-SANJOSENULES'', ''BCOEESMM135''),
     (''1479'', ''NATIXIS'', ''NATXESMMXXX''),
     (''3119'', ''CAJA-RURAL-SANJAIME'', ''BCOEESMM119''),
     (''3118'', ''CAIXA-RURAL-TORRENT'', ''BCOEESMM118''),
     (''3117'', ''CAIXA-RURAL-DALGEMESI'', ''BCOEESMM117''),
     (''0196'', ''PORTIGON-AG'', ''WELAESMMXXX''),
     (''2080'', ''NGC-BANCO'', ''CAGLESMMVIG''),
     (''2086'', ''BANCO-GRUPO-CAJATRES'', ''CECAESMM086''),
     (''3112'', ''CAJA-RURAL-SANJOSEBURRIANA'', ''BCOEESMM112''),
     (''3111'', ''CAJA-RURAL-LAVALLSISIDRO'', ''BCOEESMM111''),
     (''2085'', ''IBERCAJA-BANCO'', ''CAZRES2ZXXX''),
     (''0156'', ''ROYAL-BANK-SCOTLAND'', ''ABNAESMMXXX''),
     (''1473'', ''BANQUE-PREIVEE EDMOND'', ''PRIBESMXXXX''),
     (''0154'', ''CREDIT-AGRICOLE-INVETBANK'', ''BSUIESMMXXX''),
     (''0155'', ''BANCO-DO-BRASIL'', ''BRASESMMXXX''),
     (''0152'', ''BARCLAYS-BANK'', ''BPLCESMMXXX''),
     (''1474'', ''CITIBANK-INTERNACIONAL'', ''CITIESMXXXX''),
     (''0151'', ''JPMORGAN'', ''CHASESM3XXX''),
     (''0094'', ''RBC-INVESTOR'', ''BVALESMMXXX''),
     (''0159'', ''COMMERZBANK'', ''COBAESMXXXX'')
    ]"

definition in_BANKS :: "string \<Rightarrow> bool" where
  "in_BANKS bank = (bank \<in> set (map fst BANKS))"

text \<open>
  \<^verbatim>\<open>map(int, list(s))\<close>: each character is converted on its own, and the first one that
  is not a digit raises \<^verbatim>\<open>ValueError\<close>.
\<close>

fun map_int :: "string \<Rightarrow> error + int list" where
  "map_int [] = Inr []"
| "map_int (c # cs) =
     (case int_of_str [c] of
        Inl e \<Rightarrow> Inl e
      | Inr v \<Rightarrow> (case map_int cs of Inl e \<Rightarrow> Inl e | Inr vs \<Rightarrow> Inr (v # vs)))"

text \<open>
  \<^verbatim>\<open>sum([x*y for x, y in zip(concat, multi_seq)])\<close>; \<^verbatim>\<open>zip\<close> stops at the shorter
  list.
\<close>

definition multi_sum :: "int list \<Rightarrow> int list \<Rightarrow> int" where
  "multi_sum concat_digits multi_seq = sum_list (map (\<lambda>(x, y). x * y) (zip concat_digits multi_seq))"

text \<open>\<^verbatim>\<open>BBAN._first_check_digit(bank, branch)\<close>\<close>

definition BBAN_first_check_digit :: "string \<Rightarrow> string \<Rightarrow> error + string" where
  "BBAN_first_check_digit bank branch =
     (case map_int (bank @ branch) of
        Inl e \<Rightarrow> Inl e
      | Inr concat_digits \<Rightarrow>
          (let remainder = multi_sum concat_digits [4, 8, 5, 10, 9, 7, 3, 6] mod 11;
               digit = 11 - remainder
           in Inr (str_of_int (if digit = 10 then 1 else if digit = 11 then 0 else digit))))"

text \<open>\<^verbatim>\<open>BBAN._second_check_digit(account)\<close>\<close>

definition BBAN_second_check_digit :: "string \<Rightarrow> error + string" where
  "BBAN_second_check_digit account =
     (case map_int account of
        Inl e \<Rightarrow> Inl e
      | Inr concat_digits \<Rightarrow>
          (let remainder = multi_sum concat_digits [1, 2, 4, 8, 5, 10, 9, 7, 3, 6] mod 11;
               digit = 11 - remainder
           in Inr (str_of_int (if digit = 10 then 1 else if digit = 11 then 0 else digit))))"

text \<open>
  \<^verbatim>\<open>BBAN.validate(number)\<close>. The slices \<^verbatim>\<open>number[0:4]\<close>, \<^verbatim>\<open>number[4:8]\<close> and
  \<^verbatim>\<open>number[10:]\<close> are \<open>take\<close>/\<open>drop\<close>; \<^verbatim>\<open>number[8]\<close> and \<^verbatim>\<open>number[9]\<close> are in
  range after the length check. On success the input string itself is returned.
\<close>

definition BBAN_validate :: "string \<Rightarrow> error + string" where
  "BBAN_validate number =
     (if length number \<noteq> 20 then Inl BBANInvalidLength
      else
        let bank = take 4 number;
            branch = take 4 (drop 4 number);
            first_check_digit = [number ! 8];
            second_check_digit = [number ! 9];
            account = drop 10 number
        in if \<not> in_BANKS bank then Inl BBANInvalidBankCode
           else
             (case BBAN_first_check_digit bank branch of
                Inl e \<Rightarrow> Inl e
              | Inr real_first_check_digit \<Rightarrow>
                  if first_check_digit \<noteq> real_first_check_digit
                  then Inl BBANInvalidBankBranchCheckDigit
                  else
                    (case BBAN_second_check_digit account of
                       Inl e \<Rightarrow> Inl e
                     | Inr real_second_check_digit \<Rightarrow>
                         if second_check_digit \<noteq> real_second_check_digit
                         then Inl BBANInvalidAccountCheckDigit
                         else Inr number)))"

text \<open>A \<^verbatim>\<open>BBAN\<close> object: \<^verbatim>\<open>BBAN.__init__\<close> validates and then stores three slices.\<close>

record BBAN =
  bban_bank :: string
  bban_branch :: string
  bban_account :: string

definition BBAN_init :: "string \<Rightarrow> error + BBAN" where
  "BBAN_init number =
     (case BBAN_validate number of
        Inl e \<Rightarrow> Inl e
      | Inr _ \<Rightarrow>
          Inr \<lparr>bban_bank = take 4 number,
               bban_branch = take 4 (drop 4 number),
               bban_account = drop 10 number\<rparr>)"

text \<open>The properties \<^verbatim>\<open>BBAN.check_digit\<close> and \<^verbatim>\<open>BBAN.number\<close>.\<close>

definition BBAN_check_digit :: "BBAN \<Rightarrow> error + string" where
  "BBAN_check_digit b =
     (case BBAN_first_check_digit (bban_bank b) (bban_branch b) of
        Inl e \<Rightarrow> Inl e
      | Inr d1 \<Rightarrow>
          (case BBAN_second_check_digit (bban_account b) of
             Inl e \<Rightarrow> Inl e
           | Inr d2 \<Rightarrow> Inr (d1 @ d2)))"

definition BBAN_number :: "BBAN \<Rightarrow> error + string" where
  "BBAN_number b =
     (case BBAN_check_digit b of
        Inl e \<Rightarrow> Inl e
      | Inr cd \<Rightarrow> BBAN_validate (bban_bank b @ bban_branch b @ cd @ bban_account b))"

text \<open>
  \<^verbatim>\<open>BBAN.generate(bank, branch, account)\<close>; \<open>r\<close> is the value of
  \<^verbatim>\<open>random.randrange(9999999999)\<close>, so \<open>0 \<le> r < 9999999999\<close>. The two check digits are
  assigned inside \<^verbatim>\<open>if account is None:\<close> only, so with an account given the
  \<^verbatim>\<open>return\<close> line reads the unassigned local \<^verbatim>\<open>first_cd\<close>.
\<close>

definition BBAN_generate :: "string \<Rightarrow> string \<Rightarrow> string option \<Rightarrow> int \<Rightarrow> error + BBAN" where
  "BBAN_generate bank branch account r =
     (case account of
        None \<Rightarrow>
          (let number = str_of_int r;
               account' = zfill 10 number
           in (case BBAN_first_check_digit bank branch of
                 Inl e \<Rightarrow> Inl e
               | Inr first_cd \<Rightarrow>
                   (case BBAN_second_check_digit account' of
                      Inl e \<Rightarrow> Inl e
                    | Inr second_cd \<Rightarrow>
                        BBAN_init (bank @ branch @ first_cd @ second_cd @ account'))))
      | Some _ \<Rightarrow> Inl UnboundLocalError)"

text \<open>
  The loop of \<^verbatim>\<open>IBAN._calc_check_digit\<close> that builds \<^verbatim>\<open>new_number\<close>: a character for
  which \<^verbatim>\<open>isalpha()\<close> holds is replaced by \<^verbatim>\<open>str(alphabet_seq.index(c) + 10)\<close>, where
  \<^verbatim>\<open>alphabet_seq\<close> holds the upper-case letters only, so a lower-case letter raises
  \<^verbatim>\<open>ValueError\<close>.
\<close>

definition ascii_uppercase :: string where
  "ascii_uppercase = ''ABCDEFGHIJKLMNOPQRSTUVWXYZ''"

fun letters_to_digits :: "string \<Rightarrow> string \<Rightarrow> error + string" where
  "letters_to_digits new_number [] = Inr new_number"
| "letters_to_digits new_number (c # cs) =
     (if isalpha c
      then (case list_index ascii_uppercase c of
              Inl e \<Rightarrow> Inl e
            | Inr i \<Rightarrow> letters_to_digits (new_number @ str_of_int (int i + 10)) cs)
      else letters_to_digits (new_number @ [c]) cs)"

text \<open>
  \<^verbatim>\<open>IBAN._calc_check_digit(number)\<close>. The local \<^verbatim>\<open>bban\<close> is \<^verbatim>\<open>number[4:8]\<close>, the four
  characters of the bank code, to which \<^verbatim>\<open>number[0:2] + "00"\<close> is appended.
\<close>

definition IBAN_calc_check_digit :: "string \<Rightarrow> error + string" where
  "IBAN_calc_check_digit number =
     (let bban = take 4 (drop 4 number);
          country = take 2 number @ ''00''
      in (case letters_to_digits [] (bban @ country) of
            Inl e \<Rightarrow> Inl e
          | Inr new_number \<Rightarrow>
              (case int_of_str new_number of
                 Inl e \<Rightarrow> Inl e
               | Inr n \<Rightarrow> Inr (zfill 2 (str_of_int (98 - n mod 97))))))"

text \<open>\<^verbatim>\<open>IBAN.validate(number)\<close>; on success the input string itself is returned.\<close>

definition IBAN_validate :: "string \<Rightarrow> error + string" where
  "IBAN_validate number =
     (if length number \<noteq> 24 then Inl IBANInvalidLength
      else
        let country = take 2 number;
            check_digit = take 2 (drop 2 number);
            bank = take 4 (drop 4 number)
        in if upper country \<noteq> ''ES'' then Inl IBANInvalidCountry
           else
             (case IBAN_calc_check_digit number of
                Inl e \<Rightarrow> Inl e
              | Inr real_check_digit \<Rightarrow>
                  if check_digit \<noteq> real_check_digit then Inl IBANInvalidCheckDigit
                  else if \<not> in_BANKS bank then Inl IBANInvalidBankCode
                  else Inr number))"

text \<open>
  An \<^verbatim>\<open>IBAN\<close> object: \<^verbatim>\<open>IBAN.__init__\<close> runs \<^verbatim>\<open>IBAN.validate(number)\<close> and then builds
  \<^verbatim>\<open>BBAN(number[4:])\<close>, which runs \<^verbatim>\<open>BBAN.validate\<close> on the trailing characters.
\<close>

record IBAN =
  iban_country :: string
  iban_bban :: BBAN

definition IBAN_init :: "string \<Rightarrow> error + IBAN" where
  "IBAN_init number =
     (case IBAN_validate number of
        Inl e \<Rightarrow> Inl e
      | Inr _ \<Rightarrow>
          (case BBAN_init (drop 4 number) of
             Inl e \<Rightarrow> Inl e
           | Inr b \<Rightarrow> Inr \<lparr>iban_country = take 2 number, iban_bban = b\<rparr>))"

text \<open>The properties \<^verbatim>\<open>IBAN.check_digit\<close> and \<^verbatim>\<open>IBAN.number\<close>.\<close>

definition IBAN_check_digit :: "IBAN \<Rightarrow> error + string" where
  "IBAN_check_digit i =
     (case BBAN_number (iban_bban i) of
        Inl e \<Rightarrow> Inl e
      | Inr n \<Rightarrow> IBAN_calc_check_digit (iban_country i @ ''00'' @ n))"

definition IBAN_number :: "IBAN \<Rightarrow> error + string" where
  "IBAN_number i =
     (case IBAN_check_digit i of
        Inl e \<Rightarrow> Inl e
      | Inr cd \<Rightarrow>
          (case BBAN_number (iban_bban i) of
             Inl e \<Rightarrow> Inl e
           | Inr n \<Rightarrow> IBAN_validate (iban_country i @ cd @ n)))"

text \<open>\<^verbatim>\<open>IBAN.generate(bank, branch, account)\<close>, with the draw \<open>r\<close> of \<^const>\<open>BBAN_generate\<close>.\<close>

definition IBAN_generate :: "string \<Rightarrow> string \<Rightarrow> string option \<Rightarrow> int \<Rightarrow> error + IBAN" where
  "IBAN_generate bank branch account r =
     (case BBAN_generate bank branch account r of
        Inl e \<Rightarrow> Inl e
      | Inr b \<Rightarrow>
          (case BBAN_number b of
             Inl e \<Rightarrow> Inl e
           | Inr bban \<Rightarrow>
               (case IBAN_calc_check_digit (''ES'' @ ''00'' @ bban) of
                  Inl e \<Rightarrow> Inl e
                | Inr check_digit \<Rightarrow> IBAN_init (''ES'' @ check_digit @ bban))))"

text \<open>
  The check digit as the specification words it (section 4.3, steps (a) to (d)), for
  comparison with \<^const>\<open>IBAN_calc_check_digit\<close>: the whole candidate is rearranged, so
  that all twenty characters after the first four come first and the country code with
  its placeholder follows.
\<close>

definition spec_mod97_check_digit :: "string \<Rightarrow> error + string" where
  "spec_mod97_check_digit candidate =
     (case letters_to_digits [] (drop 4 candidate @ take 4 candidate) of
        Inl e \<Rightarrow> Inl e
      | Inr digits \<Rightarrow>
          (case int_of_str digits of
             Inl e \<Rightarrow> Inl e
           | Inr n \<Rightarrow> Inr (zfill 2 (str_of_int (98 - n mod 97)))))"

section \<open>Decimal strings\<close>

lemma of_char_digit_char: "d < 10 \<Longrightarrow> (of_char (digit_char d) :: nat) = 48 + d"
  by (simp add: digit_char_def)

lemma isdigit_digit_char: "d < 10 \<Longrightarrow> isdigit (digit_char d)"
  by (simp add: isdigit_def of_char_digit_char)

lemma isdigit_not_space: "isdigit c \<Longrightarrow> \<not> isspace c"
  by (auto simp: isdigit_def isspace_def)

lemma isdigit_not_sign: "isdigit c \<Longrightarrow> c \<noteq> CHR ''-'' \<and> c \<noteq> CHR ''+''"
  by (auto simp: isdigit_def)

lemma str_nat_digits: "list_all isdigit (str_nat n)"
proof (induction n rule: str_nat.induct)
  case (1 n)
  show ?case
  proof (cases "n < 10")
    case True
    then show ?thesis by (simp add: str_nat.simps isdigit_digit_char)
  next
    case False
    with 1 have "list_all isdigit (str_nat (n div 10))" by simp
    moreover have "isdigit (digit_char (n mod 10))" by (simp add: isdigit_digit_char)
    ultimately show ?thesis using False by (subst str_nat.simps) simp
  qed
qed

lemma str_nat_nonempty: "str_nat n \<noteq> []"
  by (subst str_nat.simps) simp

lemma digits_value_snoc: "digits_value (ds @ [c]) = 10 * digits_value ds + ((of_char c :: nat) - 48)"
  by (simp add: digits_value_def)

lemma digits_value_str_nat: "digits_value (str_nat n) = n"
proof (induction n rule: str_nat.induct)
  case (1 n)
  show ?case
  proof (cases "n < 10")
    case True
    then show ?thesis by (simp add: str_nat.simps digits_value_def of_char_digit_char)
  next
    case False
    with 1 have "digits_value (str_nat (n div 10)) = n div 10" by simp
    then have "digits_value (str_nat (n div 10) @ [digit_char (n mod 10)]) = n"
      by (simp add: digits_value_snoc of_char_digit_char)
    then show ?thesis using False by (subst str_nat.simps) simp
  qed
qed

lemma length_str_nat: "n < 10 ^ Suc k \<Longrightarrow> length (str_nat n) \<le> Suc k"
proof (induction n arbitrary: k rule: str_nat.induct)
  case (1 n)
  show ?case
  proof (cases "n < 10")
    case True
    then show ?thesis by (simp add: str_nat.simps)
  next
    case False
    then obtain j where k: "k = Suc j" using "1.prems" by (cases k) auto
    have "n div 10 < 10 ^ Suc j" using "1.prems" k by (simp add: less_mult_imp_div_less)
    with 1 False have "length (str_nat (n div 10)) \<le> Suc j" by simp
    then show ?thesis using False k by (subst str_nat.simps) simp
  qed
qed

lemma digits_value_zeros: "digits_value (replicate k (CHR ''0'') @ ds) = digits_value ds"
proof -
  have "foldl (\<lambda>a c. 10 * a + ((of_char c :: nat) - 48)) 0 (replicate k (CHR ''0'')) = 0"
    by (induction k) simp_all
  then show ?thesis by (simp add: digits_value_def)
qed

lemma digits_value_append:
  "digits_value (xs @ ys) = digits_value xs * 10 ^ length ys + digits_value ys"
proof (induction ys rule: rev_induct)
  case Nil
  then show ?case by (simp add: digits_value_def)
next
  case (snoc y ys)
  have "digits_value (xs @ ys @ [y]) = 10 * digits_value (xs @ ys) + ((of_char y :: nat) - 48)"
    using digits_value_snoc [of "xs @ ys" y] by simp
  then show ?case by (simp add: snoc digits_value_snoc algebra_simps)
qed

lemma strip_digits: "list_all isdigit s \<Longrightarrow> strip s = s"
proof (cases s)
  case Nil
  then show ?thesis by (simp add: strip_def)
next
  case (Cons c cs)
  assume d: "list_all isdigit s"
  then have "\<not> isspace c" using Cons by (simp add: isdigit_not_space)
  then have a: "dropWhile isspace s = s" using Cons by simp
  have "rev s \<noteq> []" using Cons by simp
  moreover have "list_all isdigit (rev s)" using d by (simp add: list_all_iff)
  ultimately have "dropWhile isspace (rev s) = rev s"
    by (cases "rev s") (auto simp: isdigit_not_space)
  with a show ?thesis by (simp add: strip_def)
qed

lemma int_of_str_digits:
  assumes "s \<noteq> []" "list_all isdigit s"
  shows "int_of_str s = Inr (int (digits_value s))"
proof -
  obtain c cs where s: "s = c # cs" using assms(1) by (cases s) auto
  then have "isdigit c" using assms(2) by simp
  then have "c \<noteq> CHR ''-''" "c \<noteq> CHR ''+''" using isdigit_not_sign by auto
  then show ?thesis using assms s by (simp add: int_of_str_def strip_digits Let_def)
qed

lemma zfill_digits:
  assumes "s \<noteq> []" "list_all isdigit s"
  shows "zfill w s = replicate (w - length s) (CHR ''0'') @ s"
proof -
  obtain c cs where s: "s = c # cs" using assms(1) by (cases s) auto
  then have "isdigit c" using assms(2) by simp
  then have "c \<noteq> CHR ''-''" "c \<noteq> CHR ''+''" using isdigit_not_sign by auto
  then show ?thesis using s by (simp add: zfill_def)
qed

lemma isdigit_zero: "isdigit (CHR ''0'')"
  by (simp add: isdigit_def)

lemma zfill_str:
  assumes "0 \<le> r"
  shows "zfill w (str_of_int r) = replicate (w - length (str_nat (nat r))) (CHR ''0'') @ str_nat (nat r)"
  using assms by (simp add: str_of_int_def zfill_digits str_nat_nonempty str_nat_digits)

lemma zfill_str_digits: "0 \<le> r \<Longrightarrow> list_all isdigit (zfill w (str_of_int r))"
  using str_nat_digits [of "nat r"] by (auto simp: zfill_str list_all_iff isdigit_zero)

lemma zfill_str_nonempty: "0 \<le> r \<Longrightarrow> zfill w (str_of_int r) \<noteq> []"
  by (simp add: zfill_str str_nat_nonempty)

lemma zfill_str_value: "0 \<le> r \<Longrightarrow> digits_value (zfill w (str_of_int r)) = nat r"
  by (simp add: zfill_str digits_value_zeros digits_value_str_nat)

lemma zfill_str_length:
  assumes "0 \<le> r" "r < 10 ^ Suc k"
  shows "length (zfill (Suc k) (str_of_int r)) = Suc k"
proof -
  have "nat r < 10 ^ Suc k" using assms by (simp add: nat_less_iff)
  then have "length (str_nat (nat r)) \<le> Suc k" by (rule length_str_nat)
  then show ?thesis using assms(1) by (simp add: zfill_str)
qed

section \<open>National identity numbers: generation and validation\<close>

lemma letters_single: "k < 23 \<Longrightarrow> \<exists>c. letters ! k = [c]"
proof -
  assume k: "k < 23"
  have "\<forall>s \<in> set letters. \<exists>c. s = [c]" by (simp add: letters_def)
  moreover have "length letters = 23" by (simp add: letters_def)
  then have "letters ! k \<in> set letters" using k by (intro nth_mem) simp
  ultimately show ?thesis by blast
qed

lemma mod23_index: "nat ((n::int) mod 23) < 23"
  by simp

lemma replace_absent: "old \<notin> set s \<Longrightarrow> replace old new s = s"
  by (induction s) (auto simp: replace_def)

lemma digits_no_prefix_letter:
  "list_all isdigit s \<Longrightarrow> CHR ''X'' \<notin> set s \<and> CHR ''Y'' \<notin> set s \<and> CHR ''Z'' \<notin> set s"
  by (auto simp: list_all_iff isdigit_def)

lemma validate_national_shape:
  assumes "length dni = 8" "list_all isdigit dni"
  shows "DNI_validate (dni @ [c]) = Inr ([c] = letters ! nat (int (digits_value dni) mod 23))"
proof -
  obtain d ds where dni: "dni = d # ds" using assms(1) by (cases dni) auto
  then have "isdigit d" using assms(2) by simp
  then have nf: "[d] \<notin> set foreign" by (auto simp: foreign_def isdigit_def)
  have "dni \<noteq> []" using dni by simp
  then have "int_of_str dni = Inr (int (digits_value dni))"
    using assms(2) by (rule int_of_str_digits)
  then show ?thesis using assms(1) nf dni by (simp add: DNI_validate_def Let_def nth_append)
qed

lemma validate_foreign_shape:
  assumes "k < 3" "length d = 7" "list_all isdigit d"
  shows "DNI_validate (foreign ! k @ d @ [c]) =
           Inr ([c] = letters ! nat (int (digits_value (str_nat k @ d)) mod 23))"
proof -
  have dig: "list_all isdigit (str_nat k @ d)" using assms(3) str_nat_digits [of k] by simp
  have ne: "str_nat k @ d \<noteq> []" by (simp add: str_nat_nonempty)
  have v: "int_of_str (str_nat k @ d) = Inr (int (digits_value (str_nat k @ d)))"
    using ne dig by (rule int_of_str_digits)
  have np: "CHR ''X'' \<notin> set d" "CHR ''Y'' \<notin> set d" "CHR ''Z'' \<notin> set d"
    using digits_no_prefix_letter [OF assms(3)] by auto
  consider "k = 0" | "k = 1" | "k = 2" using assms(1) by linarith
  then show ?thesis
  proof cases
    case 1
    then show ?thesis using assms(2) v np
      by (simp add: DNI_validate_def Let_def foreign_def str_of_int_def replace_def
          replace_absent [unfolded replace_def] nth_append)
  next
    case 2
    then show ?thesis using assms(2) v np
      by (simp add: DNI_validate_def Let_def foreign_def str_of_int_def replace_def
          replace_absent [unfolded replace_def] nth_append)
  next
    case 3
    then show ?thesis using assms(2) v np
      by (simp add: DNI_validate_def Let_def foreign_def str_of_int_def replace_def
          replace_absent [unfolded replace_def] nth_append)
  qed
qed

lemma national_result:
  assumes "0 \<le> r" "r \<le> 9999999"
  shows "DNI_national r = Inr (zfill 8 (str_of_int r) @ letters ! nat (r mod 23))"
proof -
  have "int_of_str (zfill 8 (str_of_int r)) = Inr (int (digits_value (zfill 8 (str_of_int r))))"
    using assms(1) by (intro int_of_str_digits zfill_str_nonempty zfill_str_digits)
  then show ?thesis using assms(1) by (simp add: DNI_national_def Let_def zfill_str_value)
qed

lemma list_index_foreign: "k < 3 \<Longrightarrow> list_index foreign (foreign ! k) = Inr k"
proof -
  assume "k < 3"
  then consider "k = 0" | "k = 1" | "k = 2" by linarith
  then show ?thesis by cases (simp_all add: foreign_def)
qed

lemma foreign_result:
  assumes "k < 3" "0 \<le> r" "r \<le> 9999999"
  shows "DNI_foreign (foreign ! k) r =
           Inr (foreign ! k @ zfill 7 (str_of_int r) @ letters ! nat ((int k * 10000000 + r) mod 23))"
proof -
  let ?d = "zfill 7 (str_of_int r)"
  have len: "length ?d = 7"
    using zfill_str_length [of r 6] assms by simp
  have dig: "list_all isdigit (str_nat k @ ?d)"
    using zfill_str_digits [OF assms(2), of 7] str_nat_digits [of k] by simp
  have "int_of_str (str_nat k @ ?d) = Inr (int (digits_value (str_nat k @ ?d)))"
    using dig by (intro int_of_str_digits) (simp_all add: str_nat_nonempty)
  moreover have "int (digits_value (str_nat k @ ?d)) = int k * 10000000 + r"
    using assms(2) len by (simp add: digits_value_append digits_value_str_nat zfill_str_value)
  ultimately show ?thesis
    using assms(1) by (simp add: DNI_foreign_def list_index_foreign str_of_int_def Let_def)
qed

text \<open>
  Claim C4, as the code has it: an input whose length is not 9 makes \<^verbatim>\<open>DNI.validate\<close>
  raise \<^verbatim>\<open>InvalidPinError\<close>; no boolean is returned.
\<close>

theorem DNI_validate_wrong_length:
  "length pin \<noteq> 9 \<Longrightarrow> DNI_validate pin = Inl InvalidPinError"
  by (simp add: DNI_validate_def)

theorem DNI_validate_wrong_length_witness:
  "length ''1234'' \<noteq> 9 \<and> DNI_validate ''1234'' = Inl InvalidPinError"
  using DNI_validate_wrong_length [of "''1234''"] by simp

text \<open>
  The claim as stated (the result is the boolean false) fails at the four-character input
  \<open>1234\<close>.
\<close>

theorem DNI_validate_returns_false_counterexample:
  "length ''1234'' \<noteq> 9 \<and> DNI_validate ''1234'' \<noteq> Inr False"
  by (simp add: DNI_validate_def)

lemma national_valid:
  assumes "0 \<le> r" "r \<le> 9999999"
  shows "\<exists>pin. DNI_national r = Inr pin \<and> length pin = 9 \<and> DNI_validate pin = Inr True
           \<and> [pin ! 8] = letters ! nat (r mod 23)"
proof -
  let ?d = "zfill 8 (str_of_int r)"
  obtain c where c: "letters ! nat (r mod 23) = [c]"
    using letters_single [OF mod23_index] by blast
  have len: "length ?d = 8" using zfill_str_length [of r 7] assms by simp
  have dig: "list_all isdigit ?d" using assms(1) by (rule zfill_str_digits)
  have "DNI_validate (?d @ [c]) = Inr ([c] = letters ! nat (int (digits_value ?d) mod 23))"
    using len dig by (rule validate_national_shape)
  then have "DNI_validate (?d @ [c]) = Inr True"
    using assms(1) c by (simp add: zfill_str_value)
  moreover have "DNI_national r = Inr (?d @ [c])"
    using national_result [OF assms] c by simp
  ultimately show ?thesis using len c by (simp add: nth_append)
qed

lemma foreign_valid:
  assumes "k < 3" "0 \<le> r" "r \<le> 9999999"
  shows "\<exists>pin. DNI_foreign (foreign ! k) r = Inr pin \<and> length pin = 9
           \<and> DNI_validate pin = Inr True
           \<and> [pin ! 8] = letters ! nat ((int k * 10000000 + r) mod 23)"
proof -
  let ?d = "zfill 7 (str_of_int r)"
  obtain c where c: "letters ! nat ((int k * 10000000 + r) mod 23) = [c]"
    using letters_single [OF mod23_index] by blast
  have len: "length ?d = 7" using zfill_str_length [of r 6] assms by simp
  have dig: "list_all isdigit ?d" using assms(2) by (rule zfill_str_digits)
  have flen: "length (foreign ! k) = 1"
  proof -
    consider "k = 0" | "k = 1" | "k = 2" using assms(1) by linarith
    then show ?thesis by cases (simp_all add: foreign_def)
  qed
  have num: "int (digits_value (str_nat k @ ?d)) = int k * 10000000 + r"
    using assms(2) len by (simp add: digits_value_append digits_value_str_nat zfill_str_value)
  have "DNI_validate (foreign ! k @ ?d @ [c]) =
          Inr ([c] = letters ! nat (int (digits_value (str_nat k @ ?d)) mod 23))"
    using assms(1) len dig by (rule validate_foreign_shape)
  then have "DNI_validate (foreign ! k @ ?d @ [c]) = Inr True"
    using c num by simp
  moreover have "DNI_foreign (foreign ! k) r = Inr (foreign ! k @ ?d @ [c])"
    using foreign_result [OF assms] c by simp
  ultimately show ?thesis using len flen c by (simp add: nth_append)
qed

text \<open>
  Claim C9: for either variant and every draw of the random source, \<^verbatim>\<open>DNI.value\<close>
  returns a nine-character code that passes \<^verbatim>\<open>DNI.validate\<close>, and the ninth character is
  the entry of \<^const>\<open>letters\<close> indexed by the code's numeric value modulo 23 (the prefix
  letter of a foreign code counting as its index).
\<close>

theorem DNI_value_passes_validate:
  assumes "choice \<in> set foreign" "0 \<le> r" "r \<le> 9999999"
  shows "\<exists>pin k. list_index foreign choice = Inr k
           \<and> DNI_value picked choice r = Inr (Some pin)
           \<and> length pin = 9
           \<and> DNI_validate pin = Inr True
           \<and> [pin ! 8] = letters ! nat ((case picked of National \<Rightarrow> r
                                           | Foreign \<Rightarrow> int k * 10000000 + r) mod 23)"
proof -
  have "length foreign = 3" by (simp add: foreign_def)
  then obtain k where k: "k < 3" "choice = foreign ! k"
    using assms(1) by (metis in_set_conv_nth)
  have idx: "list_index foreign choice = Inr k" using k by (simp add: list_index_foreign)
  show ?thesis
  proof (cases picked)
    case National
    obtain pin where "DNI_national r = Inr pin" "length pin = 9" "DNI_validate pin = Inr True"
        "[pin ! 8] = letters ! nat (r mod 23)"
      using national_valid [OF assms(2,3)] by blast
    then show ?thesis using National idx by (simp add: DNI_value_def)
  next
    case Foreign
    obtain pin where "DNI_foreign (foreign ! k) r = Inr pin" "length pin = 9"
        "DNI_validate pin = Inr True"
        "[pin ! 8] = letters ! nat ((int k * 10000000 + r) mod 23)"
      using foreign_valid [OF k(1) assms(2,3)] by blast
    then show ?thesis using Foreign idx k(2) by (simp add: DNI_value_def)
  qed
qed

theorem DNI_value_passes_validate_witness:
  "''Y'' \<in> set foreign \<and> (0::int) \<le> 1234567 \<and> (1234567::int) \<le> 9999999
     \<and> (\<exists>pin k. list_index foreign ''Y'' = Inr k
           \<and> DNI_value Foreign ''Y'' 1234567 = Inr (Some pin)
           \<and> length pin = 9
           \<and> DNI_validate pin = Inr True
           \<and> [pin ! 8] = letters ! nat ((int k * 10000000 + 1234567) mod 23))"
proof -
  have h: "''Y'' \<in> set foreign" by (simp add: foreign_def)
  show ?thesis using h DNI_value_passes_validate [OF h, of 1234567 Foreign] by simp
qed

text \<open>
  Claim C5: \<^verbatim>\<open>DNI.national\<close> draws from \<^verbatim>\<open>randint(0, 9999999)\<close>, seven digits, and pads
  to eight, so for every draw the body starts with the digit 0: no body with a non-zero
  first digit is ever produced.
\<close>

theorem DNI_national_leading_zero:
  assumes "0 \<le> r" "r \<le> 9999999"
  shows "\<exists>rest. DNI_national r = Inr (CHR ''0'' # rest) \<and> length rest = 8"
proof -
  have "nat r < 10 ^ Suc 6" using assms by (simp add: nat_less_iff)
  then have "length (str_nat (nat r)) \<le> Suc 6" by (rule length_str_nat)
  then obtain j where j: "8 - length (str_nat (nat r)) = Suc j"
    by (cases "8 - length (str_nat (nat r))") auto
  obtain c where c: "letters ! nat (r mod 23) = [c]"
    using letters_single [OF mod23_index] by blast
  have len: "length (zfill 8 (str_of_int r)) = 8" using zfill_str_length [of r 7] assms by simp
  have "zfill 8 (str_of_int r) = CHR ''0'' # replicate j (CHR ''0'') @ str_nat (nat r)"
    using assms(1) j by (simp add: zfill_str)
  then show ?thesis using national_result [OF assms] c len by auto
qed

theorem DNI_national_leading_zero_witness:
  "(0::int) \<le> 9999999 \<and> (9999999::int) \<le> 9999999
     \<and> (\<exists>rest. DNI_national 9999999 = Inr (CHR ''0'' # rest) \<and> length rest = 8)"
  using DNI_national_leading_zero [of 9999999] by simp

section \<open>Evaluating the model on concrete strings\<close>

lemma str_nat_small: "n < 10 \<Longrightarrow> str_nat n = [digit_char n]"
  by (subst str_nat.simps) simp

lemma str_nat_large: "10 \<le> n \<Longrightarrow> str_nat n = str_nat (n div 10) @ [digit_char (n mod 10)]"
  by (subst str_nat.simps) simp

lemma digit_char_values:
  "digit_char 0 = CHR ''0''" "digit_char 1 = CHR ''1''" "digit_char 2 = CHR ''2''"
  "digit_char 3 = CHR ''3''" "digit_char 4 = CHR ''4''" "digit_char 5 = CHR ''5''"
  "digit_char 6 = CHR ''6''" "digit_char 7 = CHR ''7''" "digit_char 8 = CHR ''8''"
  "digit_char 9 = CHR ''9''" "digit_char (Suc 0) = CHR ''1''"
  by (simp_all add: digit_char_def char_of_def bit_iff_odd)

lemmas py_eval =
  isdigit_def isspace_def isalpha_def digit_char_values
  str_of_int_def str_nat_small str_nat_large zfill_def strip_def digits_value_def
  int_of_str_def Let_def

lemmas bank_eval =
  py_eval multi_sum_def BBAN_first_check_digit_def BBAN_second_check_digit_def
  ascii_uppercase_def IBAN_calc_check_digit_def

lemma upper_ES: "upper ''ES'' = ''ES''"
  by (simp add: upper_def upper_char_def)

lemma upper_es: "upper ''es'' = ''ES''"
  by (simp add: upper_def upper_char_def char_of_def bit_iff_odd)

lemma upper_FR: "upper ''FR'' = ''FR''"
  by (simp add: upper_def upper_char_def)

lemma in_BANKS_1465: "in_BANKS ''1465''"
  by (simp add: in_BANKS_def BANKS_def)

lemma in_BANKS_2100: "in_BANKS ''2100''"
  by (simp add: in_BANKS_def BANKS_def)

lemma not_in_BANKS_9999: "\<not> in_BANKS ''9999''"
  by (simp add: in_BANKS_def BANKS_def)

lemma first_cd_1465_0000: "BBAN_first_check_digit ''1465'' ''0000'' = Inr ''5''"
  by (simp add: bank_eval)

lemma second_cd_1: "BBAN_second_check_digit ''0000000001'' = Inr ''5''"
  by (simp add: bank_eval)

lemma BBAN_validate_good: "BBAN_validate ''14650000550000000001'' = Inr ''14650000550000000001''"
  by (simp add: BBAN_validate_def in_BANKS_1465 first_cd_1465_0000 second_cd_1)

lemma BBAN_validate_bad_first:
  "BBAN_validate ''14650000000000000001'' = Inl BBANInvalidBankBranchCheckDigit"
  by (simp add: BBAN_validate_def in_BANKS_1465 first_cd_1465_0000)

lemma BBAN_validate_bad_second:
  "BBAN_validate ''14650000500000000001'' = Inl BBANInvalidAccountCheckDigit"
  by (simp add: BBAN_validate_def in_BANKS_1465 first_cd_1465_0000 second_cd_1)

lemma BBAN_validate_bad_first_69:
  "BBAN_validate ''14650000000000000069'' = Inl BBANInvalidBankBranchCheckDigit"
  by (simp add: BBAN_validate_def in_BANKS_1465 first_cd_1465_0000)

lemma BBAN_validate_non_digit: "BBAN_validate ''1465XXXX550000000001'' = Inl ValueError"
  by (simp add: BBAN_validate_def in_BANKS_1465 bank_eval)

lemma calc_cd_1465: "IBAN_calc_check_digit ''ES0614650000000000000069'' = Inr ''06''"
  by (simp add: bank_eval)

lemma spec_cd_69: "spec_mod97_check_digit ''ES0014650000000000000069'' = Inr ''06''"
  by (simp add: bank_eval spec_mod97_check_digit_def)

lemma IBAN_validate_bad_bban:
  "IBAN_validate ''ES0614650000000000000069'' = Inr ''ES0614650000000000000069''"
  by (simp add: IBAN_validate_def upper_ES calc_cd_1465 in_BANKS_1465)

lemma calc_cd_lower: "IBAN_calc_check_digit ''es0614650000550000000001'' = Inl ValueError"
  by (simp add: bank_eval)

lemma IBAN_validate_lower:
  "IBAN_validate ''es0614650000550000000001'' = Inl ValueError"
  by (simp add: IBAN_validate_def upper_es calc_cd_lower)

lemma IBAN_validate_other_country:
  "IBAN_validate ''FR0614650000550000000001'' = Inl IBANInvalidCountry"
  by (simp add: IBAN_validate_def upper_FR)

lemma second_cd_137: "BBAN_second_check_digit ''0000000137'' = Inr ''8''"
  by (simp add: bank_eval)

lemma BBAN_validate_good_137:
  "BBAN_validate ''14650000580000000137'' = Inr ''14650000580000000137''"
  by (simp add: BBAN_validate_def in_BANKS_1465 first_cd_1465_0000 second_cd_137)

lemma calc_cd_good: "IBAN_calc_check_digit ''ES0614650000580000000137'' = Inr ''06''"
  by (simp add: bank_eval)

lemma spec_cd_137: "spec_mod97_check_digit ''ES0014650000580000000137'' = Inr ''06''"
  by (simp add: bank_eval spec_mod97_check_digit_def)

lemma IBAN_validate_good:
  "IBAN_validate ''ES0614650000580000000137'' = Inr ''ES0614650000580000000137''"
  by (simp add: IBAN_validate_def upper_ES calc_cd_good in_BANKS_1465)

lemma IBAN_init_good:
  "IBAN_init ''ES0614650000580000000137''
     = Inr \<lparr>iban_country = ''ES'',
            iban_bban = \<lparr>bban_bank = ''1465'', bban_branch = ''0000'',
                          bban_account = ''0000000137''\<rparr>\<rparr>"
  using BBAN_validate_good_137
  by (simp add: IBAN_init_def IBAN_validate_good BBAN_init_def)

lemma calc_doc: "IBAN_calc_check_digit ''ES0021000418450200051332'' = Inr ''30''"
  by (simp add: bank_eval)

lemma calc_doc91: "IBAN_calc_check_digit ''ES9121000418450200051332'' = Inr ''30''"
  by (simp add: bank_eval)

lemma spec_doc: "spec_mod97_check_digit ''ES0021000418450200051332'' = Inr ''91''"
  by (simp add: bank_eval spec_mod97_check_digit_def)

lemma IBAN_validate_doc: "IBAN_validate ''ES9121000418450200051332'' = Inl IBANInvalidCheckDigit"
  by (simp add: IBAN_validate_def upper_ES calc_doc91)

section \<open>Which errors the helpers can raise\<close>

lemma int_of_str_error: "int_of_str s = Inl e \<Longrightarrow> e = ValueError"
  by (simp add: int_of_str_def Let_def split: if_splits)

lemma map_int_error: "map_int s = Inl e \<Longrightarrow> e = ValueError"
  by (induction s) (auto split: sum.splits dest: int_of_str_error)

lemma first_check_digit_error: "BBAN_first_check_digit bank branch = Inl e \<Longrightarrow> e = ValueError"
  by (auto simp: BBAN_first_check_digit_def Let_def split: sum.splits dest: map_int_error)

lemma second_check_digit_error: "BBAN_second_check_digit account = Inl e \<Longrightarrow> e = ValueError"
  by (auto simp: BBAN_second_check_digit_def Let_def split: sum.splits dest: map_int_error)

lemma list_index_error: "list_index xs x = Inl e \<Longrightarrow> e = ValueError"
  by (induction xs) (auto split: sum.splits if_splits)

lemma letters_to_digits_error: "letters_to_digits acc s = Inl e \<Longrightarrow> e = ValueError"
  by (induction s arbitrary: acc) (auto split: sum.splits if_splits dest: list_index_error)

lemma calc_check_digit_error: "IBAN_calc_check_digit number = Inl e \<Longrightarrow> e = ValueError"
  by (auto simp: IBAN_calc_check_digit_def Let_def split: sum.splits
      dest: letters_to_digits_error int_of_str_error)

lemma calc_check_digit_two_digits:
  assumes "IBAN_calc_check_digit number = Inr s"
  shows "length s = 2 \<and> list_all isdigit s"
proof -
  obtain n :: int where s: "s = zfill 2 (str_of_int (98 - n mod 97))"
    using assms by (auto simp: IBAN_calc_check_digit_def Let_def split: sum.splits)
  have lo: "0 \<le> 98 - n mod 97" and hi: "98 - n mod 97 < 10 ^ Suc 1"
    using pos_mod_bound [of 97 n] pos_mod_sign [of 97 n] by simp_all
  have "length (zfill 2 (str_of_int (98 - n mod 97))) = 2"
    using zfill_str_length [OF lo hi] by (simp add: numeral_2_eq_2)
  then show ?thesis using s zfill_str_digits [OF lo, of 2] by simp
qed

section \<open>Which strings convert to digits\<close>

lemma BANKS_keys: "\<forall>b \<in> set (map fst BANKS). length b = 4 \<and> list_all isdigit b"
  by (simp add: BANKS_def isdigit_def)

lemma in_BANKS_digits: "in_BANKS bank \<Longrightarrow> length bank = 4 \<and> list_all isdigit bank"
  using BANKS_keys by (auto simp: in_BANKS_def)

lemma map_int_digits: "list_all isdigit s \<Longrightarrow> \<exists>ds. map_int s = Inr ds"
proof (induction s)
  case Nil
  then show ?case by simp
next
  case (Cons c cs)
  then obtain ds where "map_int cs = Inr ds" by auto
  moreover have "int_of_str [c] = Inr (int (digits_value [c]))"
    using Cons.prems by (intro int_of_str_digits) simp_all
  ultimately show ?case by simp
qed

lemma int_of_str_single: "(\<exists>v. int_of_str [c] = Inr v) = isdigit c"
proof
  assume "\<exists>v. int_of_str [c] = Inr v"
  then show "isdigit c"
    by (auto simp: int_of_str_def strip_def Let_def split: if_splits)
next
  assume "isdigit c"
  then have "int_of_str [c] = Inr (int (digits_value [c]))"
    by (intro int_of_str_digits) simp_all
  then show "\<exists>v. int_of_str [c] = Inr v" by blast
qed

lemma map_int_ok_iff: "(\<exists>ds. map_int s = Inr ds) = list_all isdigit s"
proof (induction s)
  case Nil
  then show ?case by simp
next
  case (Cons c cs)
  show ?case
    using Cons.IH int_of_str_single [of c] by (auto split: sum.splits)
qed

lemma map_int_error_iff: "(map_int s = Inl ValueError) = (\<not> list_all isdigit s)"
proof (cases "map_int s")
  case (Inl e)
  then have "e = ValueError" by (rule map_int_error)
  moreover have "\<not> list_all isdigit s" using Inl map_int_ok_iff [of s] by auto
  ultimately show ?thesis using Inl by simp
next
  case (Inr ds)
  then have "list_all isdigit s" using map_int_ok_iff [of s] by auto
  then show ?thesis using Inr by simp
qed

lemma first_check_digit_error_iff:
  "(BBAN_first_check_digit bank branch = Inl ValueError)
     = (\<not> list_all isdigit (bank @ branch))"
  using map_int_error_iff [of "bank @ branch"]
  by (auto simp: BBAN_first_check_digit_def Let_def split: sum.splits)

lemma second_check_digit_error_iff:
  "(BBAN_second_check_digit account = Inl ValueError) = (\<not> list_all isdigit account)"
  using map_int_error_iff [of account]
  by (auto simp: BBAN_second_check_digit_def Let_def split: sum.splits)

section \<open>The two BBAN check digits\<close>

lemma str_of_int_0: "str_of_int 0 = ''0''"
  by (simp add: str_of_int_def str_nat_small digit_char_values)

lemma str_of_int_1: "str_of_int 1 = ''1''"
  by (simp add: str_of_int_def str_nat_small digit_char_values)

text \<open>
  Claim C7: for both BBAN check-digit functions, whenever the digits convert and the
  weighted sum is 0 modulo 11 the check digit is the string \<open>0\<close> (not \<open>11\<close>), and whenever
  it is 1 modulo 11 the check digit is the string \<open>1\<close> (not \<open>10\<close>).
\<close>

theorem BBAN_check_digit_edge_cases:
  "(map_int (bank @ branch) = Inr ds \<and> multi_sum ds [4, 8, 5, 10, 9, 7, 3, 6] mod 11 = 0
      \<longrightarrow> BBAN_first_check_digit bank branch = Inr ''0'')
   \<and> (map_int (bank @ branch) = Inr ds \<and> multi_sum ds [4, 8, 5, 10, 9, 7, 3, 6] mod 11 = 1
      \<longrightarrow> BBAN_first_check_digit bank branch = Inr ''1'')
   \<and> (map_int account = Inr es \<and> multi_sum es [1, 2, 4, 8, 5, 10, 9, 7, 3, 6] mod 11 = 0
      \<longrightarrow> BBAN_second_check_digit account = Inr ''0'')
   \<and> (map_int account = Inr es \<and> multi_sum es [1, 2, 4, 8, 5, 10, 9, 7, 3, 6] mod 11 = 1
      \<longrightarrow> BBAN_second_check_digit account = Inr ''1'')"
  by (simp add: BBAN_first_check_digit_def BBAN_second_check_digit_def Let_def
      str_of_int_0 str_of_int_1)

lemma map_int_zero8: "map_int ''00000000'' = Inr [0, 0, 0, 0, 0, 0, 0, 0]"
  by (simp add: py_eval)

lemma map_int_three8: "map_int ''30000000'' = Inr [3, 0, 0, 0, 0, 0, 0, 0]"
  by (simp add: py_eval)

lemma map_int_zero10: "map_int ''0000000000'' = Inr [0, 0, 0, 0, 0, 0, 0, 0, 0, 0]"
  by (simp add: py_eval)

lemma map_int_one10: "map_int ''1000000000'' = Inr [1, 0, 0, 0, 0, 0, 0, 0, 0, 0]"
  by (simp add: py_eval)

theorem BBAN_check_digit_edge_cases_witness:
  "multi_sum [0, 0, 0, 0, 0, 0, 0, 0] [4, 8, 5, 10, 9, 7, 3, 6] mod 11 = 0
   \<and> BBAN_first_check_digit ''0000'' ''0000'' = Inr ''0''
   \<and> multi_sum [3, 0, 0, 0, 0, 0, 0, 0] [4, 8, 5, 10, 9, 7, 3, 6] mod 11 = 1
   \<and> BBAN_first_check_digit ''3000'' ''0000'' = Inr ''1''
   \<and> multi_sum [0, 0, 0, 0, 0, 0, 0, 0, 0, 0] [1, 2, 4, 8, 5, 10, 9, 7, 3, 6] mod 11 = 0
   \<and> BBAN_second_check_digit ''0000000000'' = Inr ''0''
   \<and> multi_sum [1, 0, 0, 0, 0, 0, 0, 0, 0, 0] [1, 2, 4, 8, 5, 10, 9, 7, 3, 6] mod 11 = 1
   \<and> BBAN_second_check_digit ''1000000000'' = Inr ''1''"
  using BBAN_check_digit_edge_cases
          [of "''0000''" "''0000''" "[0, 0, 0, 0, 0, 0, 0, 0]"
              "''0000000000''" "[0, 0, 0, 0, 0, 0, 0, 0, 0, 0]"]
        BBAN_check_digit_edge_cases
          [of "''3000''" "''0000''" "[3, 0, 0, 0, 0, 0, 0, 0]"
              "''1000000000''" "[1, 0, 0, 0, 0, 0, 0, 0, 0, 0]"]
        map_int_zero8 map_int_three8 map_int_zero10 map_int_one10
  by (simp add: multi_sum_def)

section \<open>BBAN validation\<close>

text \<open>
  Claim C6, as the code has it: \<^verbatim>\<open>BBAN.validate\<close> reports the length error exactly when
  the length is not 20; otherwise the unknown-bank error exactly when the first four
  characters are no key of \<^verbatim>\<open>BANKS\<close>; otherwise the branch check-digit error exactly when
  the first digit can be recomputed and differs from the ninth character, whatever the
  account is; otherwise the account check-digit error exactly when the second digit can be
  recomputed and differs from the tenth character. A character of the branch that is not
  a decimal digit, or, once the first digit matches, such a character of the account,
  makes the recomputation raise \<^verbatim>\<open>ValueError\<close>. On success the input string itself is
  returned, and there is no other outcome.
\<close>

theorem BBAN_validate_error_order:
  "(BBAN_validate number = Inl BBANInvalidLength) = (length number \<noteq> 20)
   \<and> (BBAN_validate number = Inl BBANInvalidBankCode)
       = (length number = 20 \<and> \<not> in_BANKS (take 4 number))
   \<and> (BBAN_validate number = Inl BBANInvalidBankBranchCheckDigit)
       = (length number = 20 \<and> in_BANKS (take 4 number)
          \<and> (\<exists>d1. BBAN_first_check_digit (take 4 number) (take 4 (drop 4 number)) = Inr d1
                \<and> [number ! 8] \<noteq> d1))
   \<and> (BBAN_validate number = Inl BBANInvalidAccountCheckDigit)
       = (length number = 20 \<and> in_BANKS (take 4 number)
          \<and> BBAN_first_check_digit (take 4 number) (take 4 (drop 4 number)) = Inr [number ! 8]
          \<and> (\<exists>d2. BBAN_second_check_digit (drop 10 number) = Inr d2 \<and> [number ! 9] \<noteq> d2))
   \<and> (BBAN_validate number = Inr parsed)
       = (parsed = number \<and> length number = 20 \<and> in_BANKS (take 4 number)
          \<and> BBAN_first_check_digit (take 4 number) (take 4 (drop 4 number)) = Inr [number ! 8]
          \<and> BBAN_second_check_digit (drop 10 number) = Inr [number ! 9])
   \<and> (BBAN_validate number = Inl ValueError)
       = (length number = 20 \<and> in_BANKS (take 4 number)
          \<and> (\<not> list_all isdigit (take 4 (drop 4 number))
               \<or> (BBAN_first_check_digit (take 4 number) (take 4 (drop 4 number))
                     = Inr [number ! 8]
                   \<and> \<not> list_all isdigit (drop 10 number))))
   \<and> BBAN_validate number
       \<in> {Inr number, Inl BBANInvalidLength, Inl BBANInvalidBankCode,
           Inl BBANInvalidBankBranchCheckDigit, Inl BBANInvalidAccountCheckDigit,
           Inl ValueError}"
proof -
  have five:
    "(BBAN_validate number = Inl BBANInvalidLength) = (length number \<noteq> 20)
     \<and> (BBAN_validate number = Inl BBANInvalidBankCode)
         = (length number = 20 \<and> \<not> in_BANKS (take 4 number))
     \<and> (BBAN_validate number = Inl BBANInvalidBankBranchCheckDigit)
         = (length number = 20 \<and> in_BANKS (take 4 number)
            \<and> (\<exists>d1. BBAN_first_check_digit (take 4 number) (take 4 (drop 4 number)) = Inr d1
                  \<and> [number ! 8] \<noteq> d1))
     \<and> (BBAN_validate number = Inl BBANInvalidAccountCheckDigit)
         = (length number = 20 \<and> in_BANKS (take 4 number)
            \<and> BBAN_first_check_digit (take 4 number) (take 4 (drop 4 number)) = Inr [number ! 8]
            \<and> (\<exists>d2. BBAN_second_check_digit (drop 10 number) = Inr d2 \<and> [number ! 9] \<noteq> d2))
     \<and> (BBAN_validate number = Inr parsed)
         = (parsed = number \<and> length number = 20 \<and> in_BANKS (take 4 number)
            \<and> BBAN_first_check_digit (take 4 number) (take 4 (drop 4 number)) = Inr [number ! 8]
            \<and> BBAN_second_check_digit (drop 10 number) = Inr [number ! 9])"
    by (auto simp: BBAN_validate_def Let_def split: sum.splits if_splits
        dest: first_check_digit_error second_check_digit_error)
  have raw: "(BBAN_validate number = Inl ValueError)
       = (length number = 20 \<and> in_BANKS (take 4 number)
          \<and> (BBAN_first_check_digit (take 4 number) (take 4 (drop 4 number)) = Inl ValueError
               \<or> (BBAN_first_check_digit (take 4 number) (take 4 (drop 4 number))
                     = Inr [number ! 8]
                   \<and> BBAN_second_check_digit (drop 10 number) = Inl ValueError)))"
    by (auto simp: BBAN_validate_def Let_def split: sum.splits if_splits
        dest: first_check_digit_error second_check_digit_error)
  have bank: "in_BANKS (take 4 number) \<Longrightarrow>
      (BBAN_first_check_digit (take 4 number) (take 4 (drop 4 number)) = Inl ValueError)
        = (\<not> list_all isdigit (take 4 (drop 4 number)))"
    using in_BANKS_digits [of "take 4 number"] by (simp add: first_check_digit_error_iff)
  have six: "(BBAN_validate number = Inl ValueError)
       = (length number = 20 \<and> in_BANKS (take 4 number)
          \<and> (\<not> list_all isdigit (take 4 (drop 4 number))
               \<or> (BBAN_first_check_digit (take 4 number) (take 4 (drop 4 number))
                     = Inr [number ! 8]
                   \<and> \<not> list_all isdigit (drop 10 number))))"
    using raw bank by (auto simp: second_check_digit_error_iff)
  have all: "BBAN_validate number
       \<in> {Inr number, Inl BBANInvalidLength, Inl BBANInvalidBankCode,
           Inl BBANInvalidBankBranchCheckDigit, Inl BBANInvalidAccountCheckDigit,
           Inl ValueError}"
    by (auto simp: BBAN_validate_def Let_def split: sum.splits if_splits
        dest: first_check_digit_error second_check_digit_error)
  show ?thesis using five six all by blast
qed

theorem BBAN_validate_error_order_witness:
  "BBAN_validate ''XXXXXXXXXXXXXXXXXXX'' = Inl BBANInvalidLength
   \<and> BBAN_validate ''9999XXXXXXXXXXXXXXXX'' = Inl BBANInvalidBankCode
   \<and> BBAN_validate ''14650000000000000001'' = Inl BBANInvalidBankBranchCheckDigit
   \<and> BBAN_validate ''14650000500000000001'' = Inl BBANInvalidAccountCheckDigit
   \<and> BBAN_validate ''14650000550000000001'' = Inr ''14650000550000000001''
   \<and> \<not> list_all isdigit (take 4 (drop 4 ''1465XXXX550000000001''))
   \<and> BBAN_validate ''1465XXXX550000000001'' = Inl ValueError"
proof -
  have nd: "\<not> list_all isdigit (take 4 (drop 4 ''1465XXXX550000000001''))"
    by (simp add: isdigit_def)
  show ?thesis
    using BBAN_validate_error_order [of "''XXXXXXXXXXXXXXXXXXX''"]
          BBAN_validate_error_order [of "''9999XXXXXXXXXXXXXXXX''"]
          BBAN_validate_error_order [of "''14650000000000000001''"]
          BBAN_validate_error_order [of "''14650000500000000001''"]
          BBAN_validate_error_order [of "''14650000550000000001''" "''14650000550000000001''"]
          BBAN_validate_error_order [of "''1465XXXX550000000001''"]
          not_in_BANKS_9999 in_BANKS_1465 first_cd_1465_0000 second_cd_1 nd
    by simp
qed

text \<open>
  The claim as stated leaves no room for a further outcome, yet a 20-character input with
  a bank code of \<^verbatim>\<open>BANKS\<close> and a branch that is not made of digits gets none of the four
  errors and no result: \<^verbatim>\<open>int\<close> raises \<^verbatim>\<open>ValueError\<close> while the first digit is recomputed.
\<close>

theorem BBAN_validate_non_digit_counterexample:
  "length ''1465XXXX550000000001'' = 20
   \<and> in_BANKS (take 4 ''1465XXXX550000000001'')
   \<and> BBAN_validate ''1465XXXX550000000001'' = Inl ValueError
   \<and> BBAN_validate ''1465XXXX550000000001'' \<noteq> Inl BBANInvalidBankBranchCheckDigit
   \<and> BBAN_validate ''1465XXXX550000000001'' \<noteq> Inl BBANInvalidAccountCheckDigit
   \<and> BBAN_validate ''1465XXXX550000000001'' \<noteq> Inr ''1465XXXX550000000001''"
  by (simp add: BBAN_validate_non_digit in_BANKS_1465)

section \<open>BBAN generation\<close>

text \<open>
  Claim C2: with an account number given, \<^verbatim>\<open>BBAN.generate\<close> never succeeds: for every
  bank, branch and account it raises \<^verbatim>\<open>UnboundLocalError\<close>, because the check digits are
  computed only in the branch that draws a random account.
\<close>

theorem BBAN_generate_with_account_fails:
  "BBAN_generate bank branch (Some account) r = Inl UnboundLocalError"
  by (simp add: BBAN_generate_def)

section \<open>The IBAN check digit\<close>

text \<open>
  Claim C10: two 24-character inputs that agree on characters 0-1 and 4-7 get the same
  result from \<^verbatim>\<open>IBAN._calc_check_digit\<close> (the same two digits, or the same error); a
  returned result is always two decimal digits.
\<close>

theorem IBAN_calc_check_digit_bank_only:
  assumes "length a = 24" "length b = 24"
    and "a ! 0 = b ! 0" "a ! 1 = b ! 1"
    and "a ! 4 = b ! 4" "a ! 5 = b ! 5" "a ! 6 = b ! 6" "a ! 7 = b ! 7"
  shows "IBAN_calc_check_digit a = IBAN_calc_check_digit b
         \<and> (\<forall>s. IBAN_calc_check_digit a = Inr s \<longrightarrow> length s = 2 \<and> list_all isdigit s)"
proof -
  have c: "take 2 a = take 2 b"
  proof (rule nth_equalityI)
    show "length (take 2 a) = length (take 2 b)" using assms(1,2) by simp
  next
    fix i assume "i < length (take 2 a)"
    then have "i = 0 \<or> i = 1" using assms(1) by auto
    then show "take 2 a ! i = take 2 b ! i" using assms(3,4) by auto
  qed
  have k: "take 4 (drop 4 a) = take 4 (drop 4 b)"
  proof (rule nth_equalityI)
    show "length (take 4 (drop 4 a)) = length (take 4 (drop 4 b))" using assms(1,2) by simp
  next
    fix i assume "i < length (take 4 (drop 4 a))"
    then have "i = 0 \<or> i = 1 \<or> i = 2 \<or> i = 3" using assms(1) by auto
    then show "take 4 (drop 4 a) ! i = take 4 (drop 4 b) ! i"
      using assms(1,2,5-8) by (auto simp: numeral_eq_Suc)
  qed
  have "IBAN_calc_check_digit a = IBAN_calc_check_digit b"
    by (simp add: IBAN_calc_check_digit_def c k)
  then show ?thesis using calc_check_digit_two_digits [of a] by blast
qed

theorem IBAN_calc_check_digit_bank_only_witness:
  "length ''ES0021000418450200051332'' = 24 \<and> length ''ES9121009999999999999999'' = 24
   \<and> IBAN_calc_check_digit ''ES0021000418450200051332''
       = IBAN_calc_check_digit ''ES9121009999999999999999''
   \<and> IBAN_calc_check_digit ''ES9121009999999999999999'' = Inr ''30''"
  using IBAN_calc_check_digit_bank_only
          [of "''ES0021000418450200051332''" "''ES9121009999999999999999''"] calc_doc
  by simp

text \<open>
  Claim C1: on the example of the module's own docstring, IBAN ES91 2100 0418 4502 0005
  1332, the code computes the check digits 30 for the candidate with placeholder 00, while
  the mod-97 value over the whole rearranged candidate is the documented 91; so
  \<^verbatim>\<open>IBAN.validate\<close> rejects the documented IBAN with the check-digit error.
\<close>

theorem IBAN_calc_check_digit_documented_example:
  "IBAN_calc_check_digit ''ES0021000418450200051332'' = Inr ''30''
   \<and> spec_mod97_check_digit ''ES0021000418450200051332'' = Inr ''91''
   \<and> IBAN_validate ''ES9121000418450200051332'' = Inl IBANInvalidCheckDigit"
  by (simp add: calc_doc spec_doc IBAN_validate_doc)

section \<open>IBAN validation\<close>

text \<open>
  Claim C8, as the code has it: for a 24-character input \<^verbatim>\<open>IBAN.validate\<close> reports the
  country error exactly when the first two characters, converted to upper case, differ
  from \<open>ES\<close>.
\<close>

theorem IBAN_validate_country_error:
  "length number = 24 \<Longrightarrow>
     (IBAN_validate number = Inl IBANInvalidCountry) = (upper (take 2 number) \<noteq> ''ES'')"
  by (auto simp: IBAN_validate_def Let_def split: sum.splits if_splits
      dest: calc_check_digit_error)

theorem IBAN_validate_country_error_witness:
  "length ''FR0614650000550000000001'' = 24
   \<and> upper (take 2 ''FR0614650000550000000001'') \<noteq> ''ES''
   \<and> IBAN_validate ''FR0614650000550000000001'' = Inl IBANInvalidCountry"
  using IBAN_validate_country_error [of "''FR0614650000550000000001''"]
  by (simp add: upper_FR)

text \<open>
  The claim as stated (any input not starting with exactly \<open>ES\<close> gets the country error)
  fails at an input starting with lower-case \<open>es\<close>.
\<close>

theorem IBAN_validate_lowercase_country_counterexample:
  "length ''es0614650000550000000001'' = 24
   \<and> take 2 ''es0614650000550000000001'' \<noteq> ''ES''
   \<and> IBAN_validate ''es0614650000550000000001'' \<noteq> Inl IBANInvalidCountry"
  by (simp add: IBAN_validate_lower)

text \<open>
  Claim C3, as the code has it: \<^verbatim>\<open>IBAN.validate\<close> succeeds exactly when its own four
  checks pass (length, country, IBAN check digit, bank code) and then returns its input; it
  does not call \<^verbatim>\<open>BBAN.validate\<close>. The delegation is made by the constructor
  \<^verbatim>\<open>IBAN.__init__\<close>, which propagates the failures of \<^verbatim>\<open>IBAN.validate\<close> and then those of
  \<^verbatim>\<open>BBAN.validate\<close> on the trailing 20 characters, and succeeds only if both do.
\<close>

theorem IBAN_init_delegates_to_BBAN:
  "(IBAN_validate number = Inl e \<longrightarrow> IBAN_init number = Inl e)
   \<and> (IBAN_validate number = Inr number \<and> BBAN_validate (drop 4 number) = Inl e
        \<longrightarrow> IBAN_init number = Inl e)
   \<and> (IBAN_init number = Inr i
        \<longrightarrow> IBAN_validate number = Inr number
            \<and> BBAN_validate (drop 4 number) = Inr (drop 4 number)
            \<and> BBAN_init (drop 4 number) = Inr (iban_bban i))
   \<and> (IBAN_validate number = Inr accepted)
       = (accepted = number \<and> length number = 24 \<and> upper (take 2 number) = ''ES''
          \<and> IBAN_calc_check_digit number = Inr (take 2 (drop 2 number))
          \<and> in_BANKS (take 4 (drop 4 number)))"
proof -
  have ok: "\<And>n x. IBAN_validate n = Inr x \<Longrightarrow> x = n"
    by (auto simp: IBAN_validate_def Let_def split: sum.splits if_splits)
  have bok: "\<And>n x. BBAN_validate n = Inr x \<Longrightarrow> x = n"
    by (auto simp: BBAN_validate_def Let_def split: sum.splits if_splits)
  have p1: "IBAN_validate number = Inl e \<longrightarrow> IBAN_init number = Inl e"
    by (simp add: IBAN_init_def)
  have p2: "IBAN_validate number = Inr number \<and> BBAN_validate (drop 4 number) = Inl e
        \<longrightarrow> IBAN_init number = Inl e"
    by (simp add: IBAN_init_def BBAN_init_def)
  have p3: "IBAN_init number = Inr i
        \<longrightarrow> IBAN_validate number = Inr number
            \<and> BBAN_validate (drop 4 number) = Inr (drop 4 number)
            \<and> BBAN_init (drop 4 number) = Inr (iban_bban i)"
    by (auto simp: IBAN_init_def BBAN_init_def split: sum.splits dest: ok bok)
  have p4: "(IBAN_validate number = Inr accepted)
       = (accepted = number \<and> length number = 24 \<and> upper (take 2 number) = ''ES''
          \<and> IBAN_calc_check_digit number = Inr (take 2 (drop 2 number))
          \<and> in_BANKS (take 4 (drop 4 number)))"
    by (auto simp: IBAN_validate_def Let_def split: sum.splits if_splits)
  show ?thesis using p1 p2 p3 p4 by blast
qed

theorem IBAN_init_delegates_to_BBAN_witness:
  "IBAN_validate ''FR0614650000550000000001'' = Inl IBANInvalidCountry
   \<and> IBAN_init ''FR0614650000550000000001'' = Inl IBANInvalidCountry
   \<and> IBAN_validate ''ES0614650000000000000069'' = Inr ''ES0614650000000000000069''
   \<and> BBAN_validate (drop 4 ''ES0614650000000000000069'') = Inl BBANInvalidBankBranchCheckDigit
   \<and> IBAN_init ''ES0614650000000000000069'' = Inl BBANInvalidBankBranchCheckDigit
   \<and> IBAN_init ''ES0614650000580000000137''
       = Inr \<lparr>iban_country = ''ES'',
              iban_bban = \<lparr>bban_bank = ''1465'', bban_branch = ''0000'',
                            bban_account = ''0000000137''\<rparr>\<rparr>
   \<and> IBAN_validate ''ES0614650000580000000137'' = Inr ''ES0614650000580000000137''
   \<and> BBAN_validate (drop 4 ''ES0614650000580000000137'') = Inr ''14650000580000000137''
   \<and> spec_mod97_check_digit ''ES0014650000580000000137'' = Inr ''06''"
  using IBAN_init_delegates_to_BBAN
          [of "''FR0614650000550000000001''" IBANInvalidCountry]
        IBAN_init_delegates_to_BBAN
          [of "''ES0614650000000000000069''" BBANInvalidBankBranchCheckDigit]
        IBAN_init_delegates_to_BBAN
          [of "''ES0614650000580000000137''" _
              "\<lparr>iban_country = ''ES'',
                iban_bban = \<lparr>bban_bank = ''1465'', bban_branch = ''0000'',
                              bban_account = ''0000000137''\<rparr>\<rparr>"]
        IBAN_validate_other_country IBAN_validate_bad_bban BBAN_validate_bad_first_69
        IBAN_init_good spec_cd_137
  by simp

text \<open>
  The claim as stated fails at an input whose length, country, IBAN check digit and bank
  code are acceptable and whose first BBAN check digit is wrong: \<^verbatim>\<open>IBAN.validate\<close>
  accepts it. Its check digits 06 are also the mod-97 value over the whole candidate.
\<close>

theorem IBAN_validate_ignores_BBAN_check_digits_counterexample:
  "length ''ES0614650000000000000069'' = 24
   \<and> spec_mod97_check_digit ''ES0014650000000000000069'' = Inr ''06''
   \<and> BBAN_validate (drop 4 ''ES0614650000000000000069'') = Inl BBANInvalidBankBranchCheckDigit
   \<and> IBAN_validate ''ES0614650000000000000069'' = Inr ''ES0614650000000000000069''"
  by (simp add: IBAN_validate_bad_bban BBAN_validate_bad_first_69 spec_cd_69)

section \<open>Generation with a random account\<close>

lemma str_of_int_digit:
  assumes "0 \<le> d" "d \<le> 9"
  shows "\<exists>c. str_of_int d = [c]"
proof -
  have "nat d < 10" using assms by simp
  then show ?thesis using assms(1) by (simp add: str_of_int_def str_nat_small)
qed

lemma eleven_complement_digit:
  fixes x :: int
  shows "\<exists>c. str_of_int (if 11 - x mod 11 = 10 then 1
                            else if 11 - x mod 11 = 11 then 0 else 11 - x mod 11) = [c]"
proof -
  have "0 \<le> x mod 11" "x mod 11 < 11" by simp_all
  then have "0 \<le> (if 11 - x mod 11 = 10 then 1 else if 11 - x mod 11 = 11 then 0 else 11 - x mod 11)
       \<and> (if 11 - x mod 11 = 10 then 1 else if 11 - x mod 11 = 11 then 0 else 11 - x mod 11) \<le> 9"
    by auto
  then show ?thesis using str_of_int_digit by blast
qed

lemma first_check_digit_single:
  assumes "list_all isdigit (bank @ branch)"
  shows "\<exists>c. BBAN_first_check_digit bank branch = Inr [c]"
proof -
  obtain ds where "map_int (bank @ branch) = Inr ds" using map_int_digits [OF assms] by blast
  then show ?thesis
    using eleven_complement_digit [of "multi_sum ds [4, 8, 5, 10, 9, 7, 3, 6]"]
    by (simp add: BBAN_first_check_digit_def Let_def)
qed

lemma second_check_digit_single:
  assumes "list_all isdigit account"
  shows "\<exists>c. BBAN_second_check_digit account = Inr [c]"
proof -
  obtain ds where "map_int account = Inr ds" using map_int_digits [OF assms] by blast
  then show ?thesis
    using eleven_complement_digit [of "multi_sum ds [1, 2, 4, 8, 5, 10, 9, 7, 3, 6]"]
    by (simp add: BBAN_second_check_digit_def Let_def)
qed

lemma BBAN_validate_assembled:
  assumes "in_BANKS bank" "length bank = 4" "length branch = 4" "length account = 10"
    and "BBAN_first_check_digit bank branch = Inr [c1]"
    and "BBAN_second_check_digit account = Inr [c2]"
  shows "BBAN_validate (bank @ branch @ [c1] @ [c2] @ account)
           = Inr (bank @ branch @ [c1] @ [c2] @ account)"
  using assms by (simp add: BBAN_validate_def Let_def nth_append)


lemma BBAN_random_generate_fields:
  assumes "in_BANKS bank" "length branch = 4" "list_all isdigit branch"
    and "0 \<le> r" "r < 9999999999"
  shows "\<exists>b s. BBAN_generate bank branch None r = Inr b
           \<and> bban_bank b = bank \<and> bban_branch b = branch
           \<and> bban_account b = zfill 10 (str_of_int r)
           \<and> BBAN_number b = Inr s \<and> length s = 20 \<and> take 4 s = bank
           \<and> BBAN_validate s = Inr s \<and> BBAN_init s = Inr b"
proof -
  let ?a = "zfill 10 (str_of_int r)"
  have bk: "length bank = 4" "list_all isdigit bank" using in_BANKS_digits [OF assms(1)] by auto
  have alen: "length ?a = 10" using zfill_str_length [of r 9] assms(4,5) by simp
  have adig: "list_all isdigit ?a" using assms(4) by (rule zfill_str_digits)
  obtain c1 where c1: "BBAN_first_check_digit bank branch = Inr [c1]"
    using first_check_digit_single [of bank branch] bk(2) assms(3) by auto
  obtain c2 where c2: "BBAN_second_check_digit ?a = Inr [c2]"
    using second_check_digit_single [OF adig] by blast
  let ?s = "bank @ branch @ [c1] @ [c2] @ ?a"
  let ?b = "\<lparr>bban_bank = bank, bban_branch = branch, bban_account = ?a\<rparr>"
  have v: "BBAN_validate ?s = Inr ?s"
    using assms(1) bk(1) assms(2) alen c1 c2 by (rule BBAN_validate_assembled)
  have init: "BBAN_init ?s = Inr ?b"
    using v bk(1) assms(2) by (simp add: BBAN_init_def)
  have gen: "BBAN_generate bank branch None r = Inr ?b"
    using c1 c2 init by (simp add: BBAN_generate_def Let_def)
  have num: "BBAN_number ?b = Inr ?s"
    using c1 c2 v by (simp add: BBAN_number_def BBAN_check_digit_def)
  have "length ?s = 20" using bk(1) assms(2) alen by simp
  moreover have "take 4 ?s = bank" using bk(1) by simp
  ultimately show ?thesis using gen num v init by auto
qed

text \<open>
  The round trip that \<^verbatim>\<open>BBAN.generate\<close> does achieve: without an account, for a bank
  of \<^verbatim>\<open>BANKS\<close>, a four-digit branch and every draw of \<^verbatim>\<open>randrange(9999999999)\<close>, it
  returns a BBAN whose 20-character number passes \<^verbatim>\<open>BBAN.validate\<close> and parses back to
  the same fields.
\<close>

theorem BBAN_generate_random_round_trip:
  assumes "in_BANKS bank" "length branch = 4" "list_all isdigit branch"
    and "0 \<le> r" "r < 9999999999"
  shows "\<exists>b s. BBAN_generate bank branch None r = Inr b
           \<and> bban_bank b = bank \<and> bban_branch b = branch
           \<and> bban_account b = zfill 10 (str_of_int r)
           \<and> BBAN_number b = Inr s \<and> length s = 20 \<and> take 4 s = bank
           \<and> BBAN_validate s = Inr s \<and> BBAN_init s = Inr b"
  using assms by (rule BBAN_random_generate_fields)

theorem BBAN_generate_random_round_trip_witness:
  "in_BANKS ''1465'' \<and> length ''0000'' = 4 \<and> list_all isdigit ''0000''
   \<and> (0::int) \<le> 1 \<and> (1::int) < 9999999999
   \<and> (\<exists>b s. BBAN_generate ''1465'' ''0000'' None 1 = Inr b
           \<and> bban_bank b = ''1465'' \<and> bban_branch b = ''0000''
           \<and> bban_account b = zfill 10 (str_of_int 1)
           \<and> BBAN_number b = Inr s \<and> length s = 20 \<and> take 4 s = ''1465''
           \<and> BBAN_validate s = Inr s \<and> BBAN_init s = Inr b)"
proof -
  have h: "list_all isdigit ''0000''" by (simp add: isdigit_def)
  show ?thesis
    using BBAN_generate_random_round_trip [OF in_BANKS_1465 _ h, of 1] in_BANKS_1465 h by simp
qed

lemma isdigit_not_alpha: "isdigit c \<Longrightarrow> \<not> isalpha c"
  by (auto simp: isdigit_def isalpha_def)

lemma letters_to_digits_digits:
  "list_all isdigit s \<Longrightarrow> letters_to_digits acc (s @ t) = letters_to_digits (acc @ s) t"
  by (induction s arbitrary: acc) (simp_all add: isdigit_not_alpha)

lemma letters_to_digits_ES00: "letters_to_digits acc ''ES00'' = Inr (acc @ ''142800'')"
  by (simp add: py_eval ascii_uppercase_def)

lemma calc_check_digit_ES:
  assumes "length bank = 4" "list_all isdigit bank" "length any = 2"
  shows "IBAN_calc_check_digit (''ES'' @ any @ bank @ rest)
           = Inr (zfill 2 (str_of_int (98 - int (digits_value (bank @ ''142800'')) mod 97)))"
proof -
  have "list_all isdigit (bank @ ''142800'')" using assms(2) by (simp add: isdigit_def)
  then have "int_of_str (bank @ ''142800'') = Inr (int (digits_value (bank @ ''142800'')))"
    by (intro int_of_str_digits) simp_all
  moreover have "letters_to_digits [] (bank @ ''ES00'') = Inr (([] @ bank) @ ''142800'')"
    by (simp only: letters_to_digits_digits [OF assms(2)] letters_to_digits_ES00)
  then have "letters_to_digits [] (bank @ ''ES00'') = Inr (bank @ ''142800'')"
    by simp
  ultimately show ?thesis using assms(1,3) by (simp add: IBAN_calc_check_digit_def)
qed

text \<open>
  The same for \<^verbatim>\<open>IBAN.generate\<close> without an account: the IBAN it returns has country
  \<open>ES\<close>, and its 24-character number passes \<^verbatim>\<open>IBAN.validate\<close> and constructs the same
  IBAN again (the check digit being the one \<^const>\<open>IBAN_calc_check_digit\<close> computes).
\<close>

theorem IBAN_generate_random_round_trip:
  assumes "in_BANKS bank" "length branch = 4" "list_all isdigit branch"
    and "0 \<le> r" "r < 9999999999"
  shows "\<exists>i n. IBAN_generate bank branch None r = Inr i
           \<and> iban_country i = ''ES''
           \<and> BBAN_generate bank branch None r = Inr (iban_bban i)
           \<and> IBAN_number i = Inr n \<and> length n = 24 \<and> take 2 n = ''ES''
           \<and> IBAN_validate n = Inr n \<and> IBAN_init n = Inr i"
proof -
  obtain b s where b: "BBAN_generate bank branch None r = Inr b" "BBAN_number b = Inr s"
      "length s = 20" "take 4 s = bank" "BBAN_init s = Inr b"
    using BBAN_random_generate_fields [OF assms] by blast
  have bk: "length bank = 4" "list_all isdigit bank" using in_BANKS_digits [OF assms(1)] by auto
  obtain rest where s: "s = bank @ rest"
    using b(4) by (metis append_take_drop_id)
  let ?cd = "zfill 2 (str_of_int (98 - int (digits_value (bank @ ''142800'')) mod 97))"
  have c0: "IBAN_calc_check_digit (''ES'' @ ''00'' @ s) = Inr ?cd"
    using calc_check_digit_ES [OF bk, of "''00''" rest] s by simp
  have cdlen: "length ?cd = 2" using calc_check_digit_two_digits [OF c0] by simp
  have c1: "IBAN_calc_check_digit (''ES'' @ ?cd @ s) = Inr ?cd"
    using calc_check_digit_ES [OF bk cdlen, of rest] s by simp
  let ?n = "''ES'' @ ?cd @ s"
  let ?i = "\<lparr>iban_country = ''ES'', iban_bban = b\<rparr>"
  have v: "IBAN_validate ?n = Inr ?n"
    using c1 cdlen b(3,4) assms(1) by (simp add: IBAN_validate_def upper_ES)
  have init: "IBAN_init ?n = Inr ?i"
    using v cdlen b(5) by (simp add: IBAN_init_def)
  have gen: "IBAN_generate bank branch None r = Inr ?i"
    using b(1,2) c0 init by (simp add: IBAN_generate_def)
  have num: "IBAN_number ?i = Inr ?n"
    using b(2) c0 v by (simp add: IBAN_number_def IBAN_check_digit_def)
  have "length ?n = 24" using cdlen b(3) by simp
  then show ?thesis using gen num v init b(1) by auto
qed

theorem IBAN_generate_random_round_trip_witness:
  "in_BANKS ''1465'' \<and> length ''0000'' = 4 \<and> list_all isdigit ''0000''
   \<and> (0::int) \<le> 1 \<and> (1::int) < 9999999999
   \<and> (\<exists>i n. IBAN_generate ''1465'' ''0000'' None 1 = Inr i
           \<and> iban_country i = ''ES''
           \<and> BBAN_generate ''1465'' ''0000'' None 1 = Inr (iban_bban i)
           \<and> IBAN_number i = Inr n \<and> length n = 24 \<and> take 2 n = ''ES''
           \<and> IBAN_validate n = Inr n \<and> IBAN_init n = Inr i)"
proof -
  have h: "list_all isdigit ''0000''" by (simp add: isdigit_def)
  show ?thesis
    using IBAN_generate_random_round_trip [OF in_BANKS_1465 _ h, of 1] in_BANKS_1465 h by simp
qed

end
